theory Spec2Isabelle
  imports Main "HOL-Library.AList" "HOL-Library.Char_ord" "HOL-Library.List_Lexorder"
begin

section \<open>Build utilities of the monorepo: a model of \<^verbatim>\<open>buildutils/src/utils.ts\<close>\<close>

text \<open>
  The functions of \<^verbatim>\<open>utils.ts\<close> that discover workspace packages, read and write
  JSON files and assemble the package dependency graph are embedded as HOL functions.
  Exceptions are values of the type \<open>error\<close>; a function that may throw returns
  \<open>error + 'a\<close>. What the code reads from outside itself is explicit:
  \<^item> the file system is a map from paths to the text of regular files;
  \<^item> the functions of Node and of the imported libraries whose code is not part of the
    file (\<^verbatim>\<open>path.join\<close>, \<^verbatim>\<open>path.resolve\<close>, \<^verbatim>\<open>JSON.parse\<close>, \<^verbatim>\<open>JSON.stringify\<close>,
    \<^verbatim>\<open>sortPackageJson\<close>, \<^verbatim>\<open>glob.sync\<close>, \<^verbatim>\<open>require.resolve\<close>) are fields of a
    record \<open>env\<close>, so every theorem holds for all of their behaviours;
  \<^item> the state a call can change (files, the module cache of \<^verbatim>\<open>require\<close>, the lines
    written by \<^verbatim>\<open>console.error\<close>) is a record \<open>world\<close> that is passed in and returned.
\<close>

subsection \<open>JSON values and errors\<close>

text \<open>
  A parsed JSON value. \<open>JObj\<close> lists the own properties of an object in enumeration
  order; the keys of an object are distinct. Numbers are restricted to integers.
  The JavaScript value \<^verbatim>\<open>undefined\<close> is \<open>None\<close> of \<open>json option\<close>.
\<close>

datatype json =
    JNull
  | JBool bool
  | JNum int
  | JStr string
  | JArr "json list"
  | JObj "(string \<times> json) list"

text \<open>
  The exceptions the code can meet. \<open>ModuleNotFound\<close> is Node's error with code
  \<^verbatim>\<open>MODULE_NOT_FOUND\<close>; \<open>ConfigurationError\<close> is the \<^verbatim>\<open>Error\<close> that \<^verbatim>\<open>getLernaPaths\<close>
  throws ("No yarn workspace / lerna package list found in ..."); \<open>CannotReadJSON\<close> is
  the string that \<^verbatim>\<open>readJSONFile\<close> throws, with the path and the cause.
\<close>

datatype error =
    ModuleNotFound string
  | ConfigurationError string
  | SyntaxError
  | TypeError
  | ENOENT string
  | CannotReadJSON string error
  | NodeDoesNotExist string

type_synonym path = string

type_synonym filesystem = "path \<rightharpoonup> string"

subsection \<open>The platform\<close>

record env =
  path_resolve :: "path \<Rightarrow> path"
  path_join :: "path \<Rightarrow> string \<Rightarrow> path"
  json_parse :: "string \<Rightarrow> json option"
  json_stringify :: "json \<Rightarrow> string"
  sortPackageJson :: "json \<Rightarrow> json"
  glob_sync :: "filesystem \<Rightarrow> string \<Rightarrow> path list"
  resolve :: "filesystem \<Rightarrow> string \<Rightarrow> path option"
  resolve_from :: "filesystem \<Rightarrow> path \<Rightarrow> string \<Rightarrow> path option"
  to_string :: "json \<Rightarrow> string"

text \<open>
  \<^item> \<open>json_parse\<close> is \<^verbatim>\<open>JSON.parse\<close> (\<open>None\<close>: a \<^verbatim>\<open>SyntaxError\<close>);
    \<open>json_stringify v\<close> is \<^verbatim>\<open>JSON.stringify(v, null, 2)\<close>.
  \<^item> \<open>glob_sync fs pattern\<close> is \<^verbatim>\<open>glob.sync(pattern)\<close> on the file system \<open>fs\<close>.
  \<^item> \<open>resolve fs request\<close> is \<^verbatim>\<open>require.resolve(request)\<close> as seen from the module
    \<^verbatim>\<open>utils\<close> (\<open>None\<close>: \<^verbatim>\<open>MODULE_NOT_FOUND\<close>), and \<open>resolve_from fs p request\<close> is
    \<^verbatim>\<open>require.resolve(request, {paths: [p]})\<close>.
  \<^item> \<open>to_string\<close> is JavaScript's conversion of a number, an array or an object to a
    string, used where such a value stands as a property key.
\<close>

record world =
  files :: filesystem
  cache :: "path \<rightharpoonup> json"
  console :: "error list"

subsection \<open>JavaScript operations on JSON values\<close>

fun truthy :: "json \<Rightarrow> bool" where
  "truthy JNull = False"
| "truthy (JBool b) = b"
| "truthy (JNum n) = (n \<noteq> 0)"
| "truthy (JStr s) = (s \<noteq> [])"
| "truthy (JArr xs) = True"
| "truthy (JObj kvs) = True"

definition truthy_val :: "json option \<Rightarrow> bool" where
  "truthy_val v = (case v of None \<Rightarrow> False | Some j \<Rightarrow> truthy j)"

text \<open>
  \<open>get_prop v key\<close> is the property read \<^verbatim>\<open>v.key\<close> for the keys the code reads
  (\<^verbatim>\<open>name\<close>, \<^verbatim>\<open>dependencies\<close>, \<^verbatim>\<open>workspaces\<close>, \<^verbatim>\<open>packages\<close>): a \<^verbatim>\<open>TypeError\<close> on
  \<^verbatim>\<open>null\<close>, the own property of an object, \<^verbatim>\<open>undefined\<close> on every other value.
\<close>

fun get_prop :: "json \<Rightarrow> string \<Rightarrow> error + json option" where
  "get_prop JNull key = Inl TypeError"
| "get_prop (JObj kvs) key = Inr (map_of kvs key)"
| "get_prop v key = Inr None"

text \<open>The string a value becomes when it is used as a property key (\<^verbatim>\<open>locals[data.name]\<close>).\<close>

fun prop_key :: "env \<Rightarrow> json option \<Rightarrow> string" where
  "prop_key env None = ''undefined''"
| "prop_key env (Some (JStr s)) = s"
| "prop_key env (Some JNull) = ''null''"
| "prop_key env (Some (JBool b)) = (if b then ''true'' else ''false'')"
| "prop_key env (Some v) = to_string env v"

text \<open>\<^verbatim>\<open>Object.keys(v)\<close>: the keys of an object, the indices of an array or a string.\<close>

fun object_keys :: "env \<Rightarrow> json \<Rightarrow> error + string list" where
  "object_keys env JNull = Inl TypeError"
| "object_keys env (JObj kvs) = Inr (map fst kvs)"
| "object_keys env (JArr xs) = Inr (map (\<lambda>i. to_string env (JNum (int i))) [0..<length xs])"
| "object_keys env (JStr s) = Inr (map (\<lambda>i. to_string env (JNum (int i))) [0..<length s])"
| "object_keys env v = Inr []"

text \<open>
  \<^verbatim>\<open>s.split(sep)\<close> for a non-empty separator (the second argument collects the piece
  being read) and \<^verbatim>\<open>pieces.join(sep)\<close>.
\<close>

fun js_split :: "string \<Rightarrow> string \<Rightarrow> string \<Rightarrow> string list" where
  "js_split sep acc [] = [acc]"
| "js_split sep acc (c # cs) =
     (if sep \<noteq> [] \<and> take (length sep) (c # cs) = sep
      then acc # js_split sep [] (drop (length sep) (c # cs))
      else js_split sep (acc @ [c]) cs)"

fun js_join :: "string \<Rightarrow> string list \<Rightarrow> string" where
  "js_join sep [] = []"
| "js_join sep [x] = x"
| "js_join sep (x # y # ys) = x @ sep @ js_join sep (y # ys)"

definition LF :: string where
  "LF = [CHR 0x0A]"

definition CRLF :: string where
  "CRLF = [CHR 0x0D, CHR 0x0A]"

text \<open>
  Normalising line endings as the specification words it: every carriage return followed
  by a line feed becomes a line feed. It is compared below with the split and join of
  the code.
\<close>

fun crlf_to_lf :: "string \<Rightarrow> string" where
  "crlf_to_lf [] = []"
| "crlf_to_lf [c] = [c]"
| "crlf_to_lf (c # d # cs) =
     (if c = CHR 0x0D \<and> d = CHR 0x0A then CHR 0x0A # crlf_to_lf cs
      else c # crlf_to_lf (d # cs))"

text \<open>
  \<^verbatim>\<open>JSONExt.deepEqual\<close> of \<^verbatim>\<open>@lumino/coreutils\<close> on JSON values: primitives are equal
  when identical, arrays when equal element by element, objects when they have the same
  keys with deep-equal values, whatever the order of the keys.
\<close>

fun deepEqual :: "json \<Rightarrow> json \<Rightarrow> bool" where
  "deepEqual (JArr xs) (JArr ys) = list_all2 deepEqual xs ys"
| "deepEqual (JObj kvs) (JObj kws) =
     (list_all (\<lambda>(k, v). k \<in> set (map fst kws)) kvs \<and>
      list_all (\<lambda>(k, w). k \<in> set (map fst kvs)) kws \<and>
      list_all (\<lambda>(k, v). case map_of kws k of None \<Rightarrow> False | Some w \<Rightarrow> deepEqual v w) kvs)"
| "deepEqual a b = (a = b)"

subsection \<open>File access\<close>

text \<open>
  \<^verbatim>\<open>fs.readFileSync(p, 'utf8')\<close> throws when there is no file at \<open>p\<close>;
  \<^verbatim>\<open>fs.writeFileSync(p, text, 'utf8')\<close> creates or replaces the file; \<^verbatim>\<open>fs.existsSync\<close>
  tests for it. Directories and the failures of the operating system other than a
  missing file are not represented.
\<close>

definition readFileSync :: "filesystem \<Rightarrow> path \<Rightarrow> error + string" where
  "readFileSync fs p = (case fs p of None \<Rightarrow> Inl (ENOENT p) | Some text \<Rightarrow> Inr text)"

definition writeFileSync :: "filesystem \<Rightarrow> path \<Rightarrow> string \<Rightarrow> filesystem" where
  "writeFileSync fs p text = fs(p \<mapsto> text)"

definition existsSync :: "filesystem \<Rightarrow> path \<Rightarrow> bool" where
  "existsSync fs p = (fs p \<noteq> None)"

subsection \<open>\<^verbatim>\<open>readJSONFile\<close>, \<^verbatim>\<open>writeJSONFile\<close>, \<^verbatim>\<open>writePackageData\<close>\<close>

definition readJSONFile :: "env \<Rightarrow> filesystem \<Rightarrow> path \<Rightarrow> error + json" where
  "readJSONFile env fs filePath =
     (case readFileSync fs filePath of
        Inl e \<Rightarrow> Inl (CannotReadJSON filePath e)
      | Inr text \<Rightarrow>
          (case json_parse env text of
             None \<Rightarrow> Inl (CannotReadJSON filePath SyntaxError)
           | Some v \<Rightarrow> Inr v))"

text \<open>
  The local function \<^verbatim>\<open>sortObjByKey\<close> of \<^verbatim>\<open>writeJSONFile\<close>. \<^verbatim>\<open>typeof null\<close> is
  \<^verbatim>\<open>'object'\<close> and \<^verbatim>\<open>null\<close> is no array, so \<^verbatim>\<open>Object.keys(null)\<close> is evaluated and
  throws a \<^verbatim>\<open>TypeError\<close>. The values of an object are visited here before the keys are
  sorted; the only failure is that \<^verbatim>\<open>TypeError\<close>, so the order of the visit does not
  show in the result.
\<close>

fun sortObjByKey :: "json \<Rightarrow> error + json"
  and sortObjByKey_items :: "json list \<Rightarrow> error + json list"
  and sortObjByKey_fields :: "(string \<times> json) list \<Rightarrow> error + (string \<times> json) list" where
  "sortObjByKey JNull = Inl TypeError"
| "sortObjByKey (JArr xs) =
     (case sortObjByKey_items xs of Inl e \<Rightarrow> Inl e | Inr ys \<Rightarrow> Inr (JArr ys))"
| "sortObjByKey (JObj kvs) =
     (case sortObjByKey_fields kvs of
        Inl e \<Rightarrow> Inl e
      | Inr kws \<Rightarrow> Inr (JObj (sort_key fst kws)))"
| "sortObjByKey v = Inr v"
| "sortObjByKey_items [] = Inr []"
| "sortObjByKey_items (x # xs) =
     (case sortObjByKey x of
        Inl e \<Rightarrow> Inl e
      | Inr y \<Rightarrow>
          (case sortObjByKey_items xs of Inl e \<Rightarrow> Inl e | Inr ys \<Rightarrow> Inr (y # ys)))"
| "sortObjByKey_fields [] = Inr []"
| "sortObjByKey_fields ((k, v) # kvs) =
     (case sortObjByKey v of
        Inl e \<Rightarrow> Inl e
      | Inr w \<Rightarrow>
          (case sortObjByKey_fields kvs of
             Inl e \<Rightarrow> Inl e
           | Inr kws \<Rightarrow> Inr ((k, w) # kws)))"

text \<open>
  \<^verbatim>\<open>writeJSONFile(filePath, data)\<close>; \<open>data\<close> holds the properties of the \<^verbatim>\<open>JSONObject\<close>.
  The second argument of \<^verbatim>\<open>JSON.stringify\<close> is the object \<^verbatim>\<open>sortObjByKey(data)\<close>: it
  is evaluated (and may throw), and as it is neither a function nor an array
  \<^verbatim>\<open>JSON.stringify\<close> ignores it. The result is the new file system and the boolean.
\<close>

definition writeJSONFile ::
  "env \<Rightarrow> filesystem \<Rightarrow> path \<Rightarrow> (string \<times> json) list \<Rightarrow> error + filesystem \<times> bool" where
  "writeJSONFile env fs filePath data =
     (case sortObjByKey (JObj data) of
        Inl e \<Rightarrow> Inl e
      | Inr replacer \<Rightarrow>
          (let text = json_stringify env (JObj data) @ LF;
               orig = (case readJSONFile env fs filePath of Inl e \<Rightarrow> JObj [] | Inr v \<Rightarrow> v)
           in if \<not> deepEqual (JObj data) orig
              then Inr (writeFileSync fs filePath text, True)
              else Inr (fs, False)))"

definition writePackageData ::
  "env \<Rightarrow> filesystem \<Rightarrow> path \<Rightarrow> json \<Rightarrow> error + filesystem \<times> bool" where
  "writePackageData env fs pkgJsonPath data =
     (let text = json_stringify env (sortPackageJson env data) @ LF
      in case readFileSync fs pkgJsonPath of
           Inl e \<Rightarrow> Inl e
         | Inr content \<Rightarrow>
             (let orig = js_join LF (js_split CRLF [] content)
              in if text \<noteq> orig
                 then Inr (writeFileSync fs pkgJsonPath text, True)
                 else Inr (fs, False)))"

subsection \<open>\<^verbatim>\<open>require\<close>\<close>

text \<open>
  \<^verbatim>\<open>require(request)\<close> for a JSON module: the request is resolved to a file name; a
  module loaded before is returned from Node's module cache; otherwise the file is read
  and parsed, and a module that loaded is added to the cache. (Node also remembers
  resolutions; with the files fixed a remembered resolution is the resolution, so
  \<open>resolve\<close> is a function of the files.)
\<close>

definition require :: "env \<Rightarrow> string \<Rightarrow> world \<Rightarrow> (error + json) \<times> world" where
  "require env request w =
     (case resolve env (files w) request of
        None \<Rightarrow> (Inl (ModuleNotFound request), w)
      | Some filename \<Rightarrow>
          (case cache w filename of
             Some v \<Rightarrow> (Inr v, w)
           | None \<Rightarrow>
               (case files w filename of
                  None \<Rightarrow> (Inl (ENOENT filename), w)
                | Some text \<Rightarrow>
                    (case json_parse env text of
                       None \<Rightarrow> (Inl SyntaxError, w)
                     | Some v \<Rightarrow> (Inr v, w\<lparr>cache := (cache w)(filename \<mapsto> v)\<rparr>)))))"

subsection \<open>\<^verbatim>\<open>getLernaPaths\<close>\<close>

text \<open>
  The body of the \<^verbatim>\<open>try\<close> block: the value of \<^verbatim>\<open>packages\<close>, or the exception that
  reaches the \<^verbatim>\<open>catch\<close> clause. \<open>lernaPackages\<close> is its \<^verbatim>\<open>else\<close> branch.
\<close>

definition lernaPackages ::
  "env \<Rightarrow> path \<Rightarrow> world \<Rightarrow> (error + json option) \<times> world" where
  "lernaPackages env basePath w =
     (case require env (path_join env basePath ''lerna.json'') w of
        (Inl e, w1) \<Rightarrow> (Inl e, w1)
      | (Inr lernaConfig, w1) \<Rightarrow>
          (case get_prop lernaConfig ''packages'' of
             Inl e \<Rightarrow> (Inl e, w1)
           | Inr pkgs \<Rightarrow> (Inr pkgs, w1)))"

definition workspacePackages ::
  "env \<Rightarrow> path \<Rightarrow> world \<Rightarrow> (error + json option) \<times> world" where
  "workspacePackages env basePath w =
     (case require env (path_join env basePath ''package.json'') w of
        (Inl e, w1) \<Rightarrow> (Inl e, w1)
      | (Inr baseConfig, w1) \<Rightarrow>
          (case get_prop baseConfig ''workspaces'' of
             Inl e \<Rightarrow> (Inl e, w1)
           | Inr None \<Rightarrow> lernaPackages env basePath w1
           | Inr (Some workspaces) \<Rightarrow>
               if truthy workspaces then
                 (case get_prop workspaces ''packages'' of
                    Inl e \<Rightarrow> (Inl e, w1)
                  | Inr pkgs \<Rightarrow>
                      (Inr (if truthy_val pkgs then pkgs else Some workspaces), w1))
               else lernaPackages env basePath w1))"

text \<open>
  The values \<^verbatim>\<open>for (const config of packages)\<close> runs over: the elements of an array,
  the characters of a string; any other value is not iterable.
\<close>

fun iterate :: "json option \<Rightarrow> error + json list" where
  "iterate (Some (JArr xs)) = Inr xs"
| "iterate (Some (JStr s)) = Inr (map (\<lambda>c. JStr [c]) s)"
| "iterate v = Inl TypeError"

text \<open>
  The loop over \<^verbatim>\<open>packages\<close>, with the paths collected so far. \<^verbatim>\<open>path.join\<close> throws a
  \<^verbatim>\<open>TypeError\<close> on an argument that is not a string.
\<close>

fun expandGlobs :: "env \<Rightarrow> filesystem \<Rightarrow> path \<Rightarrow> json list \<Rightarrow> path list \<Rightarrow> error + path list" where
  "expandGlobs env fs basePath [] paths = Inr paths"
| "expandGlobs env fs basePath (JStr config # configs) paths =
     expandGlobs env fs basePath configs (paths @ glob_sync env fs (path_join env basePath config))"
| "expandGlobs env fs basePath (config # configs) paths = Inl TypeError"

definition getLernaPaths :: "env \<Rightarrow> path \<Rightarrow> world \<Rightarrow> (error + path list) \<times> world" where
  "getLernaPaths env basePath0 w =
     (let basePath = path_resolve env basePath0 in
      case workspacePackages env basePath w of
        (Inl (ModuleNotFound request), w1) \<Rightarrow> (Inl (ConfigurationError basePath), w1)
      | (Inl e, w1) \<Rightarrow> (Inl e, w1)
      | (Inr packages, w1) \<Rightarrow>
          (case iterate packages of
             Inl e \<Rightarrow> (Inl e, w1)
           | Inr configs \<Rightarrow>
               (case expandGlobs env (files w1) basePath configs [] of
                  Inl e \<Rightarrow> (Inl e, w1)
                | Inr paths \<Rightarrow>
                    (Inr (filter (\<lambda>pkgPath. existsSync (files w1) (path_join env pkgPath ''package.json''))
                            paths), w1))))"

subsection \<open>The dependency graph container\<close>

text \<open>
  Modelled from the spec: the class \<^verbatim>\<open>DepGraph\<close> of the package \<^verbatim>\<open>dependency-graph\<close>,
  whose code is not part of the repository. The graph is a mapping from name to payload
  (re-adding a name overwrites its payload rather than creating a duplicate); an edge's
  source node must already exist when the edge is added; a pair (from, to) is held once.
\<close>

text \<open>
  The payload of a node: a JSON value (a manifest), or the member that every JavaScript
  object inherits from \<^verbatim>\<open>Object.prototype\<close> under the given name.
\<close>

datatype payload = Data json | Inherited string

record depgraph =
  nodes :: "(string \<times> payload) list"
  edges :: "(string \<times> string) list"

definition emptyGraph :: depgraph where
  "emptyGraph = \<lparr>nodes = [], edges = []\<rparr>"

definition hasNode :: "depgraph \<Rightarrow> string \<Rightarrow> bool" where
  "hasNode g name = (name \<in> set (map fst (nodes g)))"

definition addNode :: "depgraph \<Rightarrow> string \<Rightarrow> payload \<Rightarrow> depgraph" where
  "addNode g name data = g\<lparr>nodes := AList.update name data (nodes g)\<rparr>"

definition addDependency :: "depgraph \<Rightarrow> string \<Rightarrow> string \<Rightarrow> error + depgraph" where
  "addDependency g from to =
     (if \<not> hasNode g from then Inl (NodeDoesNotExist from)
      else if (from, to) \<in> set (edges g) then Inr g
      else Inr (g\<lparr>edges := edges g @ [(from, to)]\<rparr>))"

subsection \<open>\<^verbatim>\<open>requirePackage\<close> and \<^verbatim>\<open>getPackageGraph\<close>\<close>

definition requirePackage :: "env \<Rightarrow> string \<Rightarrow> string \<Rightarrow> world \<Rightarrow> (error + json) \<times> world" where
  "requirePackage env parentModule module w =
     (let packagePath = module @ ''/package.json'' in
      case resolve env (files w) parentModule of
        None \<Rightarrow> require env packagePath w
      | Some parentModulePath \<Rightarrow>
          (case resolve_from env (files w) parentModulePath packagePath of
             None \<Rightarrow> (Inl (ModuleNotFound packagePath), w)
           | Some requirePath \<Rightarrow> require env requirePath w))"

definition mockPackages :: "path list" where
  "mockPackages =
     [''./jupyterlab/tests/mock_packages/extension'',
      ''./jupyterlab/tests/mock_packages/mimeextension'']"

text \<open>\<^verbatim>\<open>data.name\<close> as the key it stands for in \<^verbatim>\<open>locals\<close> and in the graph.\<close>

definition dataName :: "env \<Rightarrow> json \<Rightarrow> error + string" where
  "dataName env data =
     (case get_prop data ''name'' of Inl e \<Rightarrow> Inl e | Inr v \<Rightarrow> Inr (prop_key env v))"

text \<open>
  The object \<^verbatim>\<open>locals\<close>, created as \<^verbatim>\<open>{}\<close>: its own properties in the order in which
  they were first assigned (the order in which \<^verbatim>\<open>Object.keys\<close> lists names that are not
  array indices), and its prototype. \<open>proto = None\<close> is \<^verbatim>\<open>Object.prototype\<close>, as created;
  \<open>proto = Some kvs\<close> is the object with the properties \<open>kvs\<close>, whose own prototype is
  \<^verbatim>\<open>Object.prototype\<close>.
\<close>

record localsObj =
  own :: "(string \<times> json) list"
  proto :: "(string \<times> json) list option"

definition emptyLocals :: localsObj where
  "emptyLocals = \<lparr>own = [], proto = None\<rparr>"

text \<open>The names of the properties of \<^verbatim>\<open>Object.prototype\<close>.\<close>

definition objectPrototypeNames :: "string list" where
  "objectPrototypeNames =
     [''constructor'', ''hasOwnProperty'', ''isPrototypeOf'', ''propertyIsEnumerable'',
      ''toLocaleString'', ''toString'', ''valueOf'', ''__proto__'',
      ''__defineGetter__'', ''__defineSetter__'', ''__lookupGetter__'', ''__lookupSetter__'']"

text \<open>
  \<^verbatim>\<open>locals[key] = data\<close>. The assignment creates or overwrites an own property, except
  under the key \<^verbatim>\<open>__proto__\<close> while neither \<^verbatim>\<open>locals\<close> nor its prototype has an own
  property of that name: then the setter of \<^verbatim>\<open>Object.prototype\<close> runs and makes the
  object \<open>data\<close> the prototype of \<^verbatim>\<open>locals\<close>. (\<^verbatim>\<open>data.name\<close> is \<^verbatim>\<open>__proto__\<close> only for an
  object \<open>data\<close>, so the setter is never reached with another value.)
\<close>

definition assign :: "localsObj \<Rightarrow> string \<Rightarrow> json \<Rightarrow> localsObj" where
  "assign locals key data =
     (if key = ''__proto__'' \<and> key \<notin> set (map fst (own locals)) \<and>
         (case proto locals of None \<Rightarrow> True | Some kvs \<Rightarrow> key \<notin> set (map fst kvs))
      then (case data of JObj kvs \<Rightarrow> locals\<lparr>proto := Some kvs\<rparr> | _ \<Rightarrow> locals)
      else locals\<lparr>own := AList.update key data (own locals)\<rparr>)"

text \<open>
  \<^verbatim>\<open>key in locals\<close>: an own property, a property of the prototype, or a property of
  \<^verbatim>\<open>Object.prototype\<close>.
\<close>

definition inLocals :: "localsObj \<Rightarrow> string \<Rightarrow> bool" where
  "inLocals locals key =
     (key \<in> set (map fst (own locals)) \<or>
      (case proto locals of None \<Rightarrow> False | Some kvs \<Rightarrow> key \<in> set (map fst kvs)) \<or>
      key \<in> set objectPrototypeNames)"

text \<open>
  \<^verbatim>\<open>locals[key]\<close> for a key that is \<^verbatim>\<open>in locals\<close>: the own property, else the property
  of the prototype, else the member of \<^verbatim>\<open>Object.prototype\<close>; the getter \<^verbatim>\<open>__proto__\<close> of
  the latter returns the prototype of \<^verbatim>\<open>locals\<close>.
\<close>

definition getLocal :: "localsObj \<Rightarrow> string \<Rightarrow> payload" where
  "getLocal locals key =
     (case map_of (own locals) key of
        Some v \<Rightarrow> Data v
      | None \<Rightarrow>
          (case proto locals of
             None \<Rightarrow> Inherited key
           | Some kvs \<Rightarrow>
               (case map_of kvs key of
                  Some v \<Rightarrow> Data v
                | None \<Rightarrow> if key = ''__proto__'' then Data (JObj kvs) else Inherited key)))"

text \<open>
  The first loop, \<^verbatim>\<open>paths.forEach\<close>, with the object \<^verbatim>\<open>locals\<close> filled so far. A
  manifest that cannot be read is written to the console and the path is left out;
  \<^verbatim>\<open>data.name\<close> is read outside the \<^verbatim>\<open>try\<close> block.
\<close>

fun gatherLocals ::
  "env \<Rightarrow> path list \<Rightarrow> localsObj \<Rightarrow> world \<Rightarrow> (error + localsObj) \<times> world" where
  "gatherLocals env [] locals w = (Inr locals, w)"
| "gatherLocals env (pkgPath # paths) locals w =
     (case readJSONFile env (files w) (path_join env pkgPath ''package.json'') of
        Inl e \<Rightarrow> gatherLocals env paths locals (w\<lparr>console := console w @ [e]\<rparr>)
      | Inr data \<Rightarrow>
          (case dataName env data of
             Inl e \<Rightarrow> (Inl e, w)
           | Inr name \<Rightarrow> gatherLocals env paths (assign locals name data) w))"

text \<open>\<^verbatim>\<open>Object.keys(data.dependencies || {})\<close>.\<close>

definition dependencyNames :: "env \<Rightarrow> json \<Rightarrow> error + string list" where
  "dependencyNames env data =
     (case get_prop data ''dependencies'' of
        Inl e \<Rightarrow> Inl e
      | Inr None \<Rightarrow> object_keys env (JObj [])
      | Inr (Some deps) \<Rightarrow> object_keys env (if truthy deps then deps else JObj []))"

text \<open>
  The block \<^verbatim>\<open>if (!graph.hasNode(depName)) { ... }\<close>: the payload of a new node is
  \<^verbatim>\<open>locals[depName]\<close> when \<^verbatim>\<open>depName in locals\<close>, and what \<^verbatim>\<open>requirePackage\<close> returns
  otherwise.
\<close>

definition addDependencyNode ::
  "env \<Rightarrow> localsObj \<Rightarrow> string \<Rightarrow> string \<Rightarrow> depgraph \<Rightarrow> world
     \<Rightarrow> (error + depgraph) \<times> world" where
  "addDependencyNode env locals name depName g w =
     (if \<not> hasNode g depName then
        (if inLocals locals depName
         then (Inr (addNode g depName (getLocal locals depName)), w)
         else
           (case requirePackage env name depName w of
              (Inl e, w1) \<Rightarrow> (Inl e, w1)
            | (Inr depData, w1) \<Rightarrow> (Inr (addNode g depName (Data depData)), w1)))
      else (Inr g, w))"

text \<open>
  The inner loop over the dependency names of the package \<open>name\<close> with manifest \<open>data\<close>;
  the edge starts at \<^verbatim>\<open>data.name\<close>.
\<close>

fun addDependencies ::
  "env \<Rightarrow> localsObj \<Rightarrow> string \<Rightarrow> json \<Rightarrow> string list \<Rightarrow> depgraph \<Rightarrow> world
     \<Rightarrow> (error + depgraph) \<times> world" where
  "addDependencies env locals name data [] g w = (Inr g, w)"
| "addDependencies env locals name data (depName # depNames) g w =
     (case addDependencyNode env locals name depName g w of
        (Inl e, w1) \<Rightarrow> (Inl e, w1)
      | (Inr g1, w1) \<Rightarrow>
          (case dataName env data of
             Inl e \<Rightarrow> (Inl e, w1)
           | Inr from \<Rightarrow>
               (case addDependency g1 from depName of
                  Inl e \<Rightarrow> (Inl e, w1)
                | Inr g2 \<Rightarrow> addDependencies env locals name data depNames g2 w1)))"

text \<open>
  The outer loop, \<^verbatim>\<open>Object.keys(locals).forEach\<close>, over the own properties of
  \<^verbatim>\<open>locals\<close> that are still to be visited.
\<close>

fun addPackages ::
  "env \<Rightarrow> localsObj \<Rightarrow> (string \<times> json) list \<Rightarrow> depgraph \<Rightarrow> world
     \<Rightarrow> (error + depgraph) \<times> world" where
  "addPackages env locals [] g w = (Inr g, w)"
| "addPackages env locals ((name, data) # rest) g w =
     (case dependencyNames env data of
        Inl e \<Rightarrow> (Inl e, w)
      | Inr depNames \<Rightarrow>
          (case addDependencies env locals name data depNames (addNode g name (Data data)) w of
             (Inl e, w1) \<Rightarrow> (Inl e, w1)
           | (Inr g1, w1) \<Rightarrow> addPackages env locals rest g1 w1))"

text \<open>The body of \<^verbatim>\<open>getPackageGraph\<close> from the list of package paths on.\<close>

definition graphFromPaths :: "env \<Rightarrow> path list \<Rightarrow> world \<Rightarrow> (error + depgraph) \<times> world" where
  "graphFromPaths env paths w =
     (case gatherLocals env paths emptyLocals w of
        (Inl e, w1) \<Rightarrow> (Inl e, w1)
      | (Inr locals, w1) \<Rightarrow> addPackages env locals (own locals) emptyGraph w1)"

definition getPackageGraph :: "env \<Rightarrow> world \<Rightarrow> (error + depgraph) \<times> world" where
  "getPackageGraph env w =
     (case getLernaPaths env ''.'' w of
        (Inl e, w1) \<Rightarrow> (Inl e, w1)
      | (Inr paths, w1) \<Rightarrow> graphFromPaths env (paths @ mockPackages) w1)"

subsection \<open>What a run can see of the state\<close>

text \<open>
  \<open>lookup env w filename\<close> is what \<^verbatim>\<open>require\<close> returns in the state \<open>w\<close> for a request
  that resolves to \<open>filename\<close>. Two states give the same view when they have the same
  files and every file name loads to the same result; the module cache and the console
  may differ.
\<close>

definition lookup :: "env \<Rightarrow> world \<Rightarrow> path \<Rightarrow> error + json" where
  "lookup env w filename =
     (case cache w filename of
        Some v \<Rightarrow> Inr v
      | None \<Rightarrow>
          (case files w filename of
             None \<Rightarrow> Inl (ENOENT filename)
           | Some text \<Rightarrow>
               (case json_parse env text of None \<Rightarrow> Inl SyntaxError | Some v \<Rightarrow> Inr v)))"

definition same_view :: "env \<Rightarrow> world \<Rightarrow> world \<Rightarrow> bool" where
  "same_view env w w' = (files w = files w' \<and> (\<forall>p. lookup env w p = lookup env w' p))"

subsection \<open>Notions used to state the properties\<close>


definition readErrors :: "env \<Rightarrow> filesystem \<Rightarrow> path list \<Rightarrow> error list" where
  "readErrors env fs paths =
     concat (map (\<lambda>pkgPath.
        case readJSONFile env fs (path_join env pkgPath ''package.json'') of
          Inl e \<Rightarrow> [e]
        | Inr data \<Rightarrow> []) paths)"

definition named :: "env \<Rightarrow> (string \<times> json) list \<Rightarrow> bool" where
  "named env locals = list_all (\<lambda>(name, data). dataName env data = Inr name) locals"

definition declared :: "env \<Rightarrow> (string \<times> json) list \<Rightarrow> (string \<times> string) set" where
  "declared env locals =
     {(name, depName). \<exists>data depNames.
        (name, data) \<in> set locals \<and> dependencyNames env data = Inr depNames \<and>
        depName \<in> set depNames}"

definition nodeNames :: "depgraph \<Rightarrow> string set" where
  "nodeNames g = fst ` set (nodes g)"

definition consistent :: "depgraph \<Rightarrow> bool" where
  "consistent g = (distinct (map fst (nodes g)) \<and> fst ` set (edges g) \<subseteq> nodeNames g)"

text \<open>
  The payloads of a graph built from \<open>locals\<close> in the state \<open>w\<close>: a node whose name is
  \<^verbatim>\<open>in locals\<close> carries \<^verbatim>\<open>locals[name]\<close>, and any other node carries what
  \<^verbatim>\<open>requirePackage\<close> returns for it and a local package that declares it.
\<close>

definition payloads :: "env \<Rightarrow> localsObj \<Rightarrow> world \<Rightarrow> depgraph \<Rightarrow> bool" where
  "payloads env locals w g =
     (\<forall>depName \<in> nodeNames g.
        if inLocals locals depName
        then map_of (nodes g) depName = Some (getLocal locals depName)
        else (\<exists>name depData.
                (name, depName) \<in> declared env (own locals) \<and>
                fst (requirePackage env name depName w) = Inr depData \<and>
                map_of (nodes g) depName = Some (Data depData)))"

subsection \<open>An example workspace\<close>

text \<open>
  A workspace with the packages \<open>a\<close> and \<open>b\<close> under \<^verbatim>\<open>/r/packages\<close>, where \<open>a\<close> depends
  on \<open>b\<close>, and a directory \<open>c\<close> whose manifest is not JSON. The texts of the files are
  short names; \<open>json_parse\<close> of the example platform maps each to its value.
\<close>

definition manifestA :: json where
  "manifestA = JObj [(''name'', JStr ''a''), (''dependencies'', JObj [(''b'', JStr ''1.0'')])]"

definition manifestA2 :: json where
  "manifestA2 =
     JObj [(''name'', JStr ''a''),
           (''dependencies'', JObj [(''b'', JStr ''1.0''), (''x'', JStr ''2.0'')])]"

definition manifestA3 :: json where
  "manifestA3 =
     JObj [(''name'', JStr ''a''),
           (''dependencies'', JObj [(''y'', JStr ''1.0''), (''x'', JStr ''2.0'')])]"

definition manifestA4 :: json where
  "manifestA4 =
     JObj [(''name'', JStr ''a''), (''dependencies'', JObj [(''constructor'', JStr ''1.0'')])]"

definition manifestX :: json where
  "manifestX = JObj [(''name'', JStr ''x'')]"

definition manifestB :: json where
  "manifestB = JObj [(''name'', JStr ''b'')]"

definition manifestRoot :: json where
  "manifestRoot = JObj [(''workspaces'', JArr [JStr ''packages/*''])]"

definition manifestRoot2 :: json where
  "manifestRoot2 =
     JObj [(''workspaces'', JObj [(''packages'', JArr [JStr ''packages/*'', JStr ''packages/a''])])]"

definition exEnv :: env where
  "exEnv = \<lparr>
     path_resolve = (\<lambda>p. ''/r''),
     path_join = (\<lambda>a b. a @ ''/'' @ b),
     json_parse = (\<lambda>s. if s = ''A'' then Some manifestA
                        else if s = ''A2'' then Some manifestA2
                        else if s = ''A3'' then Some manifestA3
                        else if s = ''A4'' then Some manifestA4
                        else if s = ''X'' then Some manifestX
                        else if s = ''B'' then Some manifestB
                        else if s = ''R'' then Some manifestRoot
                        else if s = ''R2'' then Some manifestRoot2
                        else None),
     json_stringify = (\<lambda>v. if v = JObj [] then ''{}'' else ''json''),
     sortPackageJson = (\<lambda>v. v),
     glob_sync = (\<lambda>fs pattern.
        if pattern = ''/r/packages/*''
        then [''/r/packages/a'', ''/r/packages/b'', ''/r/packages/c'', ''/r/packages/d'']
        else if pattern = ''/r/packages/a'' then [''/r/packages/a'']
        else []),
     resolve = (\<lambda>fs request. if fs request = None then None else Some request),
     resolve_from = (\<lambda>fs p request. None),
     to_string = (\<lambda>v. ''[object Object]'')\<rparr>"

definition exFiles :: filesystem where
  "exFiles =
     [''/r/package.json'' \<mapsto> ''R'',
      ''/r/packages/a/package.json'' \<mapsto> ''A'',
      ''/r/packages/b/package.json'' \<mapsto> ''B'',
      ''/r/packages/c/package.json'' \<mapsto> ''not json'']"

definition exWorld :: world where
  "exWorld = \<lparr>files = exFiles, cache = Map.empty, console = []\<rparr>"

text \<open>The state after \<^verbatim>\<open>getLernaPaths\<close>, and what the first loop writes to the console.\<close>

definition exWorld1 :: world where
  "exWorld1 = exWorld\<lparr>cache := [''/r/package.json'' \<mapsto> manifestRoot]\<rparr>"

definition exErrors :: "error list" where
  "exErrors =
     [CannotReadJSON ''/r/packages/c/package.json'' SyntaxError,
      CannotReadJSON ''./jupyterlab/tests/mock_packages/extension/package.json''
        (ENOENT ''./jupyterlab/tests/mock_packages/extension/package.json''),
      CannotReadJSON ''./jupyterlab/tests/mock_packages/mimeextension/package.json''
        (ENOENT ''./jupyterlab/tests/mock_packages/mimeextension/package.json'')]"


text \<open>
  A platform that looks modules up as Node does for the requests of the code: an
  absolute request is the file of that name; any other request is searched in the
  directories \<^verbatim>\<open>node_modules\<close> on the way up from the starting point, nearest first. The
  starting point is the given location, or the module \<^verbatim>\<open>utils\<close> itself at
  \<^verbatim>\<open>/r/buildutils/lib/utils.js\<close>. A request that names a package stands for the file
  \<^verbatim>\<open>index.js\<close> of its directory, as it does for a package that names no main file.
\<close>

fun ancestorDirs :: "path \<Rightarrow> path \<Rightarrow> path list" where
  "ancestorDirs acc [] = [acc]"
| "ancestorDirs acc (c # cs) =
     (if c = CHR ''/'' then ancestorDirs (acc @ [c]) cs @ [acc]
      else ancestorDirs (acc @ [c]) cs)"

definition nodeModulesLookup :: "filesystem \<Rightarrow> path \<Rightarrow> string \<Rightarrow> path option" where
  "nodeModulesLookup fs start request =
     List.find (\<lambda>file. fs file \<noteq> None)
       (map (\<lambda>dir. dir @ ''/node_modules/'' @ request) (ancestorDirs [] start))"

definition nodeEnv :: env where
  "nodeEnv = exEnv\<lparr>
     resolve := (\<lambda>fs request.
        if take 1 request = ''/'' then (if fs request = None then None else Some request)
        else nodeModulesLookup fs ''/r/buildutils/lib/utils.js''
               (if CHR ''/'' \<in> set request then request else request @ ''/index.js'')),
     resolve_from := nodeModulesLookup\<rparr>"

text \<open>
  The package \<open>a\<close> is installed under \<^verbatim>\<open>/r/node_modules\<close> and depends on \<open>x\<close>, which is
  installed under \<^verbatim>\<open>/r/buildutils/node_modules\<close> only: \<open>x\<close> is found from \<^verbatim>\<open>utils\<close> and not
  from the location of \<open>a\<close>.
\<close>

definition hoistedWorld :: world where
  "hoistedWorld =
     \<lparr>files = exFiles(''/r/packages/a/package.json'' \<mapsto> ''A2'',
                       ''/r/node_modules/a/index.js'' \<mapsto> ''js'',
                       ''/r/buildutils/node_modules/x/package.json'' \<mapsto> ''X''),
      cache = Map.empty, console = []\<rparr>"

text \<open>The same without an installed \<open>a\<close>: the package \<open>a\<close> does not resolve.\<close>

definition fallbackWorld :: world where
  "fallbackWorld =
     \<lparr>files = exFiles(''/r/packages/a/package.json'' \<mapsto> ''A2'',
                       ''/r/buildutils/node_modules/x/package.json'' \<mapsto> ''X''),
      cache = Map.empty, console = []\<rparr>"




section \<open>Properties\<close>

subsection \<open>\<^verbatim>\<open>writePackageData\<close>\<close>

lemma js_split_not_Nil: "js_split sep acc s \<noteq> []"
  by (induction sep acc s rule: js_split.induct) auto

lemma js_join_Cons: "xs \<noteq> [] \<Longrightarrow> js_join sep (x # xs) = x @ sep @ js_join sep xs"
  by (cases xs) auto

lemma split_join_crlf: "js_join LF (js_split CRLF acc s) = acc @ crlf_to_lf s"
proof (induction s arbitrary: acc rule: crlf_to_lf.induct)
  case 1
  show ?case by simp
next
  case (2 c)
  show ?case by (simp add: CRLF_def)
next
  case (3 c d cs)
  show ?case
  proof (cases "c = CHR 0x0D \<and> d = CHR 0x0A")
    case True
    have "js_split CRLF acc (c # d # cs) = acc # js_split CRLF [] cs"
      using True by (simp add: CRLF_def)
    then show ?thesis
      using True "3.IH"(1) [of "[]"] by (simp add: js_join_Cons js_split_not_Nil LF_def)
  next
    case False
    have "js_split CRLF acc (c # d # cs) = js_split CRLF (acc @ [c]) (d # cs)"
      using False by (auto simp: CRLF_def)
    then show ?thesis
      using False "3.IH"(2) [of "acc @ [c]"] by auto
  qed
qed

text \<open>
  C10. For package data and an existing manifest file, \<^verbatim>\<open>writePackageData\<close> returns
  normally; its boolean is true exactly when the sorted, pretty-printed text of the data
  differs from the content of the file with CRLF line endings normalised to LF; the file
  is written with that text exactly when the boolean is true, and the file system is
  left as it was when the boolean is false.
\<close>

theorem writePackageData_writes_iff_changed:
  assumes "fs pkgJsonPath = Some content"
  shows "\<exists>fs' changed.
    writePackageData env fs pkgJsonPath data = Inr (fs', changed) \<and>
    changed = (json_stringify env (sortPackageJson env data) @ LF \<noteq> crlf_to_lf content) \<and>
    fs' = (if changed then fs(pkgJsonPath \<mapsto> json_stringify env (sortPackageJson env data) @ LF)
           else fs)"
  using assms split_join_crlf [of "[]" content]
  by (simp add: writePackageData_def readFileSync_def writeFileSync_def Let_def)

theorem writePackageData_writes_iff_changed_witness:
  "writePackageData exEnv [''/r/package.json'' \<mapsto> ''{}'' @ CRLF] ''/r/package.json'' (JObj []) =
     Inr ([''/r/package.json'' \<mapsto> ''{}'' @ CRLF], False)"
proof -
  let ?fs = "[''/r/package.json'' \<mapsto> ''{}'' @ CRLF]"
  have "?fs ''/r/package.json'' = Some (''{}'' @ CRLF)"
    by simp
  with writePackageData_writes_iff_changed
    [of ?fs "''/r/package.json''" "''{}'' @ CRLF" exEnv "JObj []"]
  obtain fs' changed where
    r: "writePackageData exEnv ?fs ''/r/package.json'' (JObj []) = Inr (fs', changed)" and
    c: "changed = (json_stringify exEnv (sortPackageJson exEnv (JObj [])) @ LF
          \<noteq> crlf_to_lf (''{}'' @ CRLF))" and
    f: "fs' = (if changed
          then ?fs(''/r/package.json'' \<mapsto> json_stringify exEnv (sortPackageJson exEnv (JObj [])) @ LF)
          else ?fs)"
    by blast
  from c have "\<not> changed"
    by (simp add: exEnv_def CRLF_def LF_def)
  with r f show ?thesis
    by simp
qed

subsection \<open>Runs do not depend on the module cache or the console\<close>

lemma same_view_refl: "same_view env w w"
  by (simp add: same_view_def)


lemma same_view_trans: "same_view env w w' \<Longrightarrow> same_view env w' w'' \<Longrightarrow> same_view env w w''"
  by (simp add: same_view_def)

lemma same_view_console: "same_view env w (w\<lparr>console := c\<rparr>)"
  by (simp add: same_view_def lookup_def split: option.splits)

lemma require_fst:
  "fst (require env request w) =
     (case resolve env (files w) request of
        None \<Rightarrow> Inl (ModuleNotFound request)
      | Some filename \<Rightarrow> lookup env w filename)"
  by (simp add: require_def lookup_def split: option.splits)

lemma require_cong: "same_view env w w' \<Longrightarrow> fst (require env request w) = fst (require env request w')"
  by (simp add: require_fst same_view_def split: option.splits)

lemma require_view: "same_view env w (snd (require env request w))"
  by (auto simp: require_def same_view_def lookup_def split: option.splits)

lemma step_view:
  assumes "same_view env w w'" and "same_view env w w1" and "same_view env w' w1'"
  shows "same_view env w1 w1'"
  using assms by (simp add: same_view_def)

lemma lernaPackages_cong:
  "same_view env w w' \<Longrightarrow> fst (lernaPackages env basePath w) = fst (lernaPackages env basePath w')"
  using require_cong [of env w w' "path_join env basePath ''lerna.json''"]
  by (auto simp: lernaPackages_def split: prod.splits sum.splits)

lemma lernaPackages_view: "same_view env w (snd (lernaPackages env basePath w))"
  using require_view [of env w "path_join env basePath ''lerna.json''"]
  by (auto simp: lernaPackages_def split: prod.splits sum.splits)

lemma workspacePackages_view: "same_view env w (snd (workspacePackages env basePath w))"
  using require_view [of env w "path_join env basePath ''package.json''"]
  by (auto simp: workspacePackages_def split: prod.splits sum.splits option.splits
      intro: same_view_trans lernaPackages_view)

lemma workspacePackages_cong:
  assumes "same_view env w w'"
  shows "fst (workspacePackages env basePath w) = fst (workspacePackages env basePath w')"
proof -
  let ?r = "require env (path_join env basePath ''package.json'')"
  have eq: "fst (?r w) = fst (?r w')"
    using assms by (rule require_cong)
  have v: "same_view env (snd (?r w)) (snd (?r w'))"
    using assms require_view step_view by blast
  show ?thesis
    using eq lernaPackages_cong [OF v, of basePath]
    by (auto simp: workspacePackages_def split: prod.splits sum.splits option.splits)
qed

lemma getLernaPaths_view: "same_view env w (snd (getLernaPaths env basePath w))"
  using workspacePackages_view [of env w "path_resolve env basePath"]
  by (auto simp: getLernaPaths_def Let_def split: prod.splits sum.splits error.splits)

lemma getLernaPaths_cong:
  assumes "same_view env w w'"
  shows "fst (getLernaPaths env basePath w) = fst (getLernaPaths env basePath w')"
proof -
  let ?r = "workspacePackages env (path_resolve env basePath)"
  have eq: "fst (?r w) = fst (?r w')"
    using assms by (rule workspacePackages_cong)
  have v: "same_view env (snd (?r w)) (snd (?r w'))"
    using assms workspacePackages_view step_view by blast
  then have "files (snd (?r w)) = files (snd (?r w'))"
    by (simp add: same_view_def)
  with eq show ?thesis
    by (auto simp: getLernaPaths_def Let_def split: prod.splits sum.splits error.splits)
qed

lemma requirePackage_view: "same_view env w (snd (requirePackage env parent module w))"
  by (auto simp: requirePackage_def Let_def same_view_refl require_view split: option.splits)

lemma requirePackage_cong:
  "same_view env w w' \<Longrightarrow>
     fst (requirePackage env parent module w) = fst (requirePackage env parent module w')"
  using require_cong [of env w w']
  by (auto simp: requirePackage_def Let_def same_view_def split: option.splits)

lemma gatherLocals_view: "same_view env w (snd (gatherLocals env paths locals w))"
proof (induction paths arbitrary: locals w)
  case Nil
  show ?case by (simp add: same_view_refl)
next
  case (Cons pkgPath paths)
  show ?case
  proof (cases "readJSONFile env (files w) (path_join env pkgPath ''package.json'')")
    case (Inl e)
    let ?w1 = "w\<lparr>console := console w @ [e]\<rparr>"
    have "same_view env w ?w1"
      by (rule same_view_console)
    moreover have "same_view env ?w1 (snd (gatherLocals env paths locals ?w1))"
      by (rule Cons.IH)
    ultimately have "same_view env w (snd (gatherLocals env paths locals ?w1))"
      by (rule same_view_trans)
    then show ?thesis
      using Inl by simp
  next
    case (Inr data)
    then show ?thesis
      using Cons.IH by (simp add: same_view_refl split: sum.splits)
  qed
qed

lemma gatherLocals_cong:
  "same_view env w w' \<Longrightarrow>
     fst (gatherLocals env paths locals w) = fst (gatherLocals env paths locals w')"
proof (induction paths arbitrary: locals w w')
  case Nil
  show ?case by simp
next
  case (Cons pkgPath paths)
  have f: "files w = files w'"
    using Cons.prems by (simp add: same_view_def)
  show ?case
  proof (cases "readJSONFile env (files w) (path_join env pkgPath ''package.json'')")
    case (Inl e)
    have "same_view env (w\<lparr>console := console w @ [e]\<rparr>) (w'\<lparr>console := console w' @ [e]\<rparr>)"
      using Cons.prems same_view_console step_view by blast
    from Cons.IH [OF this] show ?thesis
      using Inl f by simp
  next
    case (Inr data)
    show ?thesis
      using Inr f Cons.IH [OF Cons.prems] by (simp split: sum.splits)
  qed
qed

lemma addDependencyNode_view:
  "same_view env w (snd (addDependencyNode env locals name depName g w))"
  using requirePackage_view [of env w name depName]
  by (auto simp: addDependencyNode_def same_view_refl split: option.splits prod.splits sum.splits)

lemma addDependencyNode_cong:
  "same_view env w w' \<Longrightarrow>
     fst (addDependencyNode env locals name depName g w) =
     fst (addDependencyNode env locals name depName g w')"
  using requirePackage_cong [of env w w' name depName]
  by (auto simp: addDependencyNode_def split: option.splits prod.splits sum.splits)

lemma addDependencies_view:
  "same_view env w (snd (addDependencies env locals name data depNames g w))"
proof (induction depNames arbitrary: g w)
  case Nil
  show ?case by (simp add: same_view_refl)
next
  case (Cons depName depNames)
  obtain r w1 where s: "addDependencyNode env locals name depName g w = (r, w1)"
    by (cases "addDependencyNode env locals name depName g w")
  have v: "same_view env w w1"
    using addDependencyNode_view [of env w locals name depName g] s by simp
  have "same_view env w1 (snd (addDependencies env locals name data depNames g2 w1))" for g2
    by (rule Cons.IH)
  then have "same_view env w (snd (addDependencies env locals name data depNames g2 w1))" for g2
    using v same_view_trans by blast
  then show ?case
    using s v by (simp split: sum.splits)
qed

lemma addDependencies_cong:
  "same_view env w w' \<Longrightarrow>
     fst (addDependencies env locals name data depNames g w) =
     fst (addDependencies env locals name data depNames g w')"
proof (induction depNames arbitrary: g w w')
  case Nil
  show ?case by simp
next
  case (Cons depName depNames)
  let ?s = "addDependencyNode env locals name depName g"
  have eq: "fst (?s w) = fst (?s w')"
    using Cons.prems by (rule addDependencyNode_cong)
  have v: "same_view env (snd (?s w)) (snd (?s w'))"
    using Cons.prems addDependencyNode_view step_view by blast
  show ?case
    using eq Cons.IH [OF v] by (auto split: prod.splits sum.splits)
qed

lemma addPackages_view: "same_view env w (snd (addPackages env locals rest g w))"
proof (induction rest arbitrary: g w)
  case Nil
  show ?case by (simp add: same_view_refl)
next
  case (Cons entry rest)
  obtain name data where entry: "entry = (name, data)"
    by (cases entry)
  show ?case
  proof (cases "dependencyNames env data")
    case (Inl e)
    then show ?thesis by (simp add: entry same_view_refl)
  next
    case (Inr depNames)
    obtain r w1 where
      s: "addDependencies env locals name data depNames (addNode g name (Data data)) w = (r, w1)"
      by (cases "addDependencies env locals name data depNames (addNode g name (Data data)) w")
    have v: "same_view env w w1"
      using addDependencies_view [of env w locals name data depNames "addNode g name (Data data)"] s
      by simp
    have "same_view env w1 (snd (addPackages env locals rest g1 w1))" for g1
      by (rule Cons.IH)
    then have "same_view env w (snd (addPackages env locals rest g1 w1))" for g1
      using v same_view_trans by blast
    then show ?thesis
      using s v Inr by (simp add: entry split: sum.splits)
  qed
qed

lemma addPackages_cong:
  "same_view env w w' \<Longrightarrow>
     fst (addPackages env locals rest g w) = fst (addPackages env locals rest g w')"
proof (induction rest arbitrary: g w w')
  case Nil
  show ?case by simp
next
  case (Cons entry rest)
  obtain name data where entry: "entry = (name, data)"
    by (cases entry)
  show ?case
  proof (cases "dependencyNames env data")
    case (Inl e)
    then show ?thesis by (simp add: entry)
  next
    case (Inr depNames)
    let ?s = "addDependencies env locals name data depNames (addNode g name (Data data))"
    have eq: "fst (?s w) = fst (?s w')"
      using Cons.prems by (rule addDependencies_cong)
    have v: "same_view env (snd (?s w)) (snd (?s w'))"
      using Cons.prems addDependencies_view step_view by blast
    show ?thesis
      using eq Inr Cons.IH [OF v] by (auto simp: entry split: prod.splits sum.splits)
  qed
qed

lemma graphFromPaths_view: "same_view env w (snd (graphFromPaths env paths w))"
  using gatherLocals_view [of env w paths emptyLocals] addPackages_view same_view_trans [of env w]
  by (auto simp: graphFromPaths_def split: prod.splits sum.splits)

lemma graphFromPaths_cong:
  assumes "same_view env w w'"
  shows "fst (graphFromPaths env paths w) = fst (graphFromPaths env paths w')"
proof -
  let ?s = "gatherLocals env paths emptyLocals"
  have eq: "fst (?s w) = fst (?s w')"
    using assms by (rule gatherLocals_cong)
  have v: "same_view env (snd (?s w)) (snd (?s w'))"
    using assms gatherLocals_view step_view by blast
  show ?thesis
    using eq addPackages_cong [OF v] by (auto simp: graphFromPaths_def split: prod.splits sum.splits)
qed

lemma getPackageGraph_view: "same_view env w (snd (getPackageGraph env w))"
  using getLernaPaths_view [of env w "''.''"] graphFromPaths_view same_view_trans [of env w]
  by (auto simp: getPackageGraph_def split: prod.splits sum.splits)

lemma getPackageGraph_cong:
  assumes "same_view env w w'"
  shows "fst (getPackageGraph env w) = fst (getPackageGraph env w')"
proof -
  let ?s = "getLernaPaths env ''.''"
  have eq: "fst (?s w) = fst (?s w')"
    using assms by (rule getLernaPaths_cong)
  have v: "same_view env (snd (?s w)) (snd (?s w'))"
    using assms getLernaPaths_view step_view by blast
  show ?thesis
    using eq graphFromPaths_cong [OF v] by (auto simp: getPackageGraph_def split: prod.splits sum.splits)
qed

text \<open>
  C7. With the file system fixed, a second invocation of \<^verbatim>\<open>getPackageGraph\<close>, run in
  the state the first one left (its module cache and its console output included),
  returns the same result as the first: the same graph, hence the same node set and the
  same edge set, or the same error. The first invocation leaves the files as they were.
\<close>

theorem getPackageGraph_repeatable:
  "fst (getPackageGraph env (snd (getPackageGraph env w))) = fst (getPackageGraph env w) \<and>
   files (snd (getPackageGraph env w)) = files w"
  using getPackageGraph_view [of env w] getPackageGraph_cong [of env w "snd (getPackageGraph env w)"]
  by (simp add: same_view_def)

subsection \<open>\<^verbatim>\<open>writeJSONFile\<close> and \<^verbatim>\<open>readJSONFile\<close>\<close>

text \<open>What holds of the round trip: a file that was written reads back as the parser
  reads the written text, and a second write of the same data changes nothing.\<close>

lemma writeJSONFile_written_reads_back:
  assumes "writeJSONFile env fs filePath data = Inr (fs', True)"
    and "json_parse env (json_stringify env (JObj data) @ LF) = Some v"
  shows "readJSONFile env fs' filePath = Inr v"
  using assms
  by (auto simp: writeJSONFile_def Let_def writeFileSync_def readJSONFile_def readFileSync_def
      split: sum.splits if_splits)

lemma writeJSONFile_second_write:
  assumes "writeJSONFile env fs filePath data = Inr (fs', changed)"
    and "json_parse env (json_stringify env (JObj data) @ LF) = Some v"
    and "deepEqual (JObj data) v"
  shows "writeJSONFile env fs' filePath data = Inr (fs', False)"
  using assms
  by (auto simp: writeJSONFile_def Let_def writeFileSync_def readJSONFile_def readFileSync_def
      split: sum.splits if_splits)

text \<open>
  C9. The round trip fails on the code. Writing the empty object to a path with no file
  returns \<open>False\<close> and writes nothing, because the content of an unreadable file is taken
  to be the empty object; reading the path back then throws. Writing an object that
  holds \<^verbatim>\<open>null\<close> throws a \<^verbatim>\<open>TypeError\<close> in \<^verbatim>\<open>sortObjByKey\<close> before anything is written.
\<close>

theorem writeJSONFile_empty_object_not_written:
  "writeJSONFile env Map.empty ''new.json'' [] = Inr (Map.empty, False) \<and>
   readJSONFile env Map.empty ''new.json'' = Inl (CannotReadJSON ''new.json'' (ENOENT ''new.json'')) \<and>
   writeJSONFile env fs filePath [(''a'', JNull)] = Inl TypeError"
  by (simp add: writeJSONFile_def readJSONFile_def readFileSync_def)

subsection \<open>\<^verbatim>\<open>getLernaPaths\<close>\<close>

lemma require_files: "files (snd (require env request w)) = files w"
  using require_view [of env w request] by (simp add: same_view_def)

text \<open>
  C5. When Node cannot find the manifest \<^verbatim>\<open>package.json\<close> of the base directory, or the
  manifest loads to a value whose \<^verbatim>\<open>workspaces\<close> is absent or falsy and Node cannot find
  \<^verbatim>\<open>lerna.json\<close>, \<^verbatim>\<open>getLernaPaths\<close> fails with the configuration error, and with no
  other error.
\<close>

theorem getLernaPaths_no_package_list:
  assumes "resolve env (files w) (path_join env (path_resolve env basePath) ''package.json'') = None
    \<or> (\<exists>baseConfig workspaces.
          fst (require env (path_join env (path_resolve env basePath) ''package.json'') w) = Inr baseConfig \<and>
          get_prop baseConfig ''workspaces'' = Inr workspaces \<and> \<not> truthy_val workspaces \<and>
          resolve env (files w) (path_join env (path_resolve env basePath) ''lerna.json'') = None)"
  shows "fst (getLernaPaths env basePath w) = Inl (ConfigurationError (path_resolve env basePath))"
  using assms
proof
  assume "resolve env (files w) (path_join env (path_resolve env basePath) ''package.json'') = None"
  then show ?thesis
    by (simp add: getLernaPaths_def workspacePackages_def require_def)
next
  let ?base = "path_resolve env basePath"
  assume "\<exists>baseConfig workspaces.
          fst (require env (path_join env ?base ''package.json'') w) = Inr baseConfig \<and>
          get_prop baseConfig ''workspaces'' = Inr workspaces \<and> \<not> truthy_val workspaces \<and>
          resolve env (files w) (path_join env ?base ''lerna.json'') = None"
  then obtain baseConfig workspaces where
    r: "fst (require env (path_join env ?base ''package.json'') w) = Inr baseConfig" and
    g: "get_prop baseConfig ''workspaces'' = Inr workspaces" and
    t: "\<not> truthy_val workspaces" and
    l: "resolve env (files w) (path_join env ?base ''lerna.json'') = None"
    by blast
  obtain w1 where w1: "require env (path_join env ?base ''package.json'') w = (Inr baseConfig, w1)"
    using r by (cases "require env (path_join env ?base ''package.json'') w") simp
  have "files w1 = files w"
    using require_files [of env "path_join env ?base ''package.json''" w] w1 by simp
  then have "lernaPackages env ?base w1 = (Inl (ModuleNotFound (path_join env ?base ''lerna.json'')), w1)"
    using l by (simp add: lernaPackages_def require_def)
  then have "workspacePackages env ?base w = (Inl (ModuleNotFound (path_join env ?base ''lerna.json'')), w1)"
    using w1 g t by (simp add: workspacePackages_def truthy_val_def split: option.splits)
  then show ?thesis
    by (simp add: getLernaPaths_def)
qed

theorem getLernaPaths_no_package_list_witness:
  "fst (getLernaPaths exEnv ''.'' \<lparr>files = Map.empty, cache = Map.empty, console = []\<rparr>) =
     Inl (ConfigurationError ''/r'') \<and>
   fst (getLernaPaths exEnv ''.''
          \<lparr>files = [''/r/package.json'' \<mapsto> ''B''], cache = Map.empty, console = []\<rparr>) =
     Inl (ConfigurationError ''/r'')"
proof
  let ?w = "\<lparr>files = Map.empty, cache = Map.empty, console = []\<rparr>"
  have "resolve exEnv (files ?w) (path_join exEnv (path_resolve exEnv ''.'') ''package.json'') = None"
    by (simp add: exEnv_def)
  then show "fst (getLernaPaths exEnv ''.'' ?w) = Inl (ConfigurationError ''/r'')"
    using getLernaPaths_no_package_list [of exEnv ?w "''.''"] by (simp add: exEnv_def)
next
  let ?w = "\<lparr>files = [''/r/package.json'' \<mapsto> ''B''], cache = Map.empty, console = []\<rparr>"
  have "fst (require exEnv (path_join exEnv (path_resolve exEnv ''.'') ''package.json'') ?w) =
      Inr manifestB"
    by (simp add: require_def exEnv_def)
  moreover have "get_prop manifestB ''workspaces'' = Inr None \<and> \<not> truthy_val None"
    by (simp add: manifestB_def truthy_val_def)
  moreover have
    "resolve exEnv (files ?w) (path_join exEnv (path_resolve exEnv ''.'') ''lerna.json'') = None"
    by (simp add: exEnv_def)
  ultimately show "fst (getLernaPaths exEnv ''.'' ?w) = Inl (ConfigurationError ''/r'')"
    using getLernaPaths_no_package_list [of exEnv ?w "''.''"] by (auto simp: exEnv_def)
qed

lemma expandGlobs_strings:
  "expandGlobs env fs basePath (map JStr globs) paths =
     Inr (paths @ concat (map (\<lambda>config. glob_sync env fs (path_join env basePath config)) globs))"
  by (induction globs arbitrary: paths) simp_all

text \<open>
  C6. When the manifest of the base directory declares a list of workspace globs, as
  the array \<^verbatim>\<open>workspaces\<close> or as the array \<^verbatim>\<open>workspaces.packages\<close>, \<^verbatim>\<open>getLernaPaths\<close>
  returns the matches of the globs, glob after glob in the order declared, restricted
  to the directories in which \<^verbatim>\<open>package.json\<close> exists, and nothing else; a directory
  matched by two globs is returned twice.
\<close>

theorem getLernaPaths_workspace_globs:
  assumes "fst (require env (path_join env (path_resolve env basePath) ''package.json'') w) = Inr baseConfig"
    and "get_prop baseConfig ''workspaces'' = Inr (Some workspaces)"
    and "workspaces = JArr (map JStr globs) \<or>
         get_prop workspaces ''packages'' = Inr (Some (JArr (map JStr globs)))"
  shows "fst (getLernaPaths env basePath w) =
     Inr (filter (\<lambda>pkgPath. existsSync (files w) (path_join env pkgPath ''package.json''))
           (concat (map (\<lambda>config. glob_sync env (files w) (path_join env (path_resolve env basePath) config))
                      globs)))"
proof -
  let ?base = "path_resolve env basePath"
  obtain w1 where w1: "require env (path_join env ?base ''package.json'') w = (Inr baseConfig, w1)"
    using assms(1) by (cases "require env (path_join env ?base ''package.json'') w") simp
  have f: "files w1 = files w"
    using require_files [of env "path_join env ?base ''package.json''" w] w1 by simp
  have "truthy workspaces \<and> (\<exists>pkgs. get_prop workspaces ''packages'' = Inr pkgs \<and>
      (if truthy_val pkgs then pkgs else Some workspaces) = Some (JArr (map JStr globs)))"
    using assms(3) by (cases workspaces) (auto simp: truthy_val_def)
  then have "workspacePackages env ?base w = (Inr (Some (JArr (map JStr globs))), w1)"
    using w1 assms(2) by (auto simp: workspacePackages_def)
  then show ?thesis
    using f by (simp add: getLernaPaths_def expandGlobs_strings)
qed

theorem getLernaPaths_workspace_globs_witness:
  "fst (getLernaPaths exEnv ''.''
          \<lparr>files = exFiles(''/r/package.json'' \<mapsto> ''R2''), cache = Map.empty, console = []\<rparr>) =
     Inr [''/r/packages/a'', ''/r/packages/b'', ''/r/packages/c'', ''/r/packages/a'']"
proof -
  let ?w = "\<lparr>files = exFiles(''/r/package.json'' \<mapsto> ''R2''), cache = Map.empty, console = []\<rparr>"
  have "fst (require exEnv (path_join exEnv (path_resolve exEnv ''.'') ''package.json'') ?w) =
      Inr manifestRoot2"
    by (simp add: require_def exEnv_def)
  moreover have "get_prop manifestRoot2 ''workspaces'' =
      Inr (Some (JObj [(''packages'', JArr [JStr ''packages/*'', JStr ''packages/a''])]))"
    by (simp add: manifestRoot2_def)
  moreover have "get_prop (JObj [(''packages'', JArr [JStr ''packages/*'', JStr ''packages/a''])])
      ''packages'' = Inr (Some (JArr (map JStr [''packages/*'', ''packages/a''])))"
    by simp
  ultimately have "fst (getLernaPaths exEnv ''.'' ?w) =
     Inr (filter (\<lambda>pkgPath. existsSync (files ?w) (path_join exEnv pkgPath ''package.json''))
           (concat (map (\<lambda>config. glob_sync exEnv (files ?w)
                                   (path_join exEnv (path_resolve exEnv ''.'') config))
                      [''packages/*'', ''packages/a''])))"
    using getLernaPaths_workspace_globs
      [of exEnv "''.''" ?w manifestRoot2
        "JObj [(''packages'', JArr [JStr ''packages/*'', JStr ''packages/a''])]"
        "[''packages/*'', ''packages/a'']"]
    by blast
  then show ?thesis
    by (simp add: exEnv_def exFiles_def existsSync_def)
qed

subsection \<open>The first loop of \<^verbatim>\<open>getPackageGraph\<close>\<close>

lemma named_update:
  "named env locals \<Longrightarrow> dataName env data = Inr name \<Longrightarrow> named env (AList.update name data locals)"
  by (induction locals) (auto simp: named_def)

lemma named_assign:
  "named env (own locals) \<Longrightarrow> dataName env data = Inr name \<Longrightarrow>
     named env (own (assign locals name data))"
  by (auto simp: assign_def named_update split: json.splits)

lemma distinct_assign:
  "distinct (map fst (own locals)) \<Longrightarrow> distinct (map fst (own (assign locals name data)))"
  by (auto simp: assign_def distinct_update split: json.splits)

lemma own_assign_keys:
  "fst ` set (own (assign locals name data)) \<subseteq> insert name (fst ` set (own locals))"
  by (auto simp: assign_def dom_update split: json.splits)



lemma gatherLocals_named:
  "gatherLocals env paths locals w = (Inr locals', w') \<Longrightarrow> named env (own locals) \<Longrightarrow>
     named env (own locals')"
proof (induction paths arbitrary: locals w)
  case Nil
  then show ?case by simp
next
  case (Cons pkgPath paths)
  then show ?case
    by (auto simp: named_assign split: sum.splits)
qed

lemma gatherLocals_distinct:
  "gatherLocals env paths locals w = (Inr locals', w') \<Longrightarrow> distinct (map fst (own locals)) \<Longrightarrow>
     distinct (map fst (own locals'))"
proof (induction paths arbitrary: locals w)
  case Nil
  then show ?case by simp
next
  case (Cons pkgPath paths)
  then show ?case
    by (auto simp: distinct_assign split: sum.splits)
qed

lemma gatherLocals_state:
  "gatherLocals env paths locals w = (Inr locals', w') \<Longrightarrow>
     w' = w\<lparr>console := console w @ readErrors env (files w) paths\<rparr>"
proof (induction paths arbitrary: locals w)
  case Nil
  then show ?case by (simp add: readErrors_def)
next
  case (Cons pkgPath paths)
  show ?case
  proof (cases "readJSONFile env (files w) (path_join env pkgPath ''package.json'')")
    case (Inl e)
    with Cons.prems have
      "gatherLocals env paths locals (w\<lparr>console := console w @ [e]\<rparr>) = (Inr locals', w')"
      by simp
    from Cons.IH [OF this] show ?thesis
      using Inl by (simp add: readErrors_def)
  next
    case (Inr data)
    with Cons.prems obtain name where
      "gatherLocals env paths (assign locals name data) w = (Inr locals', w')"
      by (auto split: sum.splits)
    from Cons.IH [OF this] show ?thesis
      using Inr by (simp add: readErrors_def)
  qed
qed



text \<open>The first loop returns unless a manifest that was read is \<^verbatim>\<open>null\<close>.\<close>

lemma dataName_Inl: "dataName env data = Inl e \<Longrightarrow> data = JNull \<and> e = TypeError"
  by (cases data) (simp_all add: dataName_def)

lemma gatherLocals_returns:
  assumes "\<forall>pkgPath \<in> set paths.
      readJSONFile env (files w) (path_join env pkgPath ''package.json'') \<noteq> Inr JNull"
  shows "\<exists>locals' w'. gatherLocals env paths locals w = (Inr locals', w')"
  using assms
proof (induction paths arbitrary: locals w)
  case Nil
  show ?case by simp
next
  case (Cons p paths)
  show ?case
  proof (cases "readJSONFile env (files w) (path_join env p ''package.json'')")
    case (Inl e)
    then show ?thesis
      using Cons.IH [of "w\<lparr>console := console w @ [e]\<rparr>" locals] Cons.prems by simp
  next
    case (Inr d)
    then have "d \<noteq> JNull"
      using Cons.prems by auto
    then obtain n where "dataName env d = Inr n"
      using dataName_Inl [of env d] by (cases "dataName env d") auto
    then show ?thesis
      using Inr Cons.IH [of w "assign locals n d"] Cons.prems by simp
  qed
qed

lemma gatherLocals_Inl_null:
  assumes "fst (gatherLocals env paths locals w) = Inl e"
  shows "e = TypeError \<and> (\<exists>pkgPath \<in> set paths.
      readJSONFile env (files w) (path_join env pkgPath ''package.json'') = Inr JNull)"
proof -
  have "\<exists>pkgPath \<in> set paths.
      readJSONFile env (files w) (path_join env pkgPath ''package.json'') = Inr JNull"
  proof (rule ccontr)
    assume "\<not> (\<exists>pkgPath \<in> set paths.
      readJSONFile env (files w) (path_join env pkgPath ''package.json'') = Inr JNull)"
    then have "\<forall>pkgPath \<in> set paths.
      readJSONFile env (files w) (path_join env pkgPath ''package.json'') \<noteq> Inr JNull"
      by blast
    from gatherLocals_returns [OF this, of locals] assms show False
      by auto
  qed
  moreover have "e = TypeError"
    using assms
  proof (induction paths arbitrary: locals w)
    case Nil
    then show ?case by simp
  next
    case (Cons p paths)
    then show ?case
      by (auto split: sum.splits dest: dataName_Inl)
  qed
  ultimately show ?thesis
    by blast
qed

subsection \<open>The graph container\<close>

lemma hasNode_nodeNames: "hasNode g name = (name \<in> nodeNames g)"
  by (simp add: hasNode_def nodeNames_def)

lemma nodeNames_addNode: "nodeNames (addNode g name data) = insert name (nodeNames g)"
  by (simp add: nodeNames_def addNode_def dom_update)

lemma edges_addNode: "edges (addNode g name data) = edges g"
  by (simp add: addNode_def)

lemma distinct_addNode:
  "distinct (map fst (nodes g)) \<Longrightarrow> distinct (map fst (nodes (addNode g name data)))"
  by (simp add: addNode_def distinct_update)

lemma payload_addNode:
  "map_of (nodes (addNode g name data)) key = (if key = name then Some data else map_of (nodes g) key)"
  by (simp add: addNode_def update_conv')

lemma addDependency_Inr:
  assumes "addDependency g from to = Inr g'"
  shows "nodes g' = nodes g" and "set (edges g') = insert (from, to) (set (edges g))"
    and "from \<in> nodeNames g" and "distinct (edges g) \<Longrightarrow> distinct (edges g')"
  using assms by (auto simp: addDependency_def hasNode_nodeNames split: if_splits)

lemma addDependency_Inl:
  "addDependency g from to = Inl e \<Longrightarrow> from \<notin> nodeNames g \<and> e = NodeDoesNotExist from"
  by (auto simp: addDependency_def hasNode_nodeNames split: if_splits)

lemma addDependencyNode_Inr:
  assumes "addDependencyNode env locals name depName g w = (Inr g1, w1)"
  shows "nodeNames g1 = insert depName (nodeNames g)" and "edges g1 = edges g"
    and "distinct (map fst (nodes g)) \<Longrightarrow> distinct (map fst (nodes g1))"
  using assms
  by (auto simp: addDependencyNode_def hasNode_nodeNames nodeNames_addNode edges_addNode
      distinct_addNode split: if_splits prod.splits sum.splits)

lemma addDependencyNode_Inl:
  assumes "addDependencyNode env locals name depName g w = (Inl e, w1)"
  shows "depName \<notin> nodeNames g \<and> \<not> inLocals locals depName \<and>
    fst (requirePackage env name depName w) = Inl e"
  using assms
  by (auto simp: addDependencyNode_def hasNode_nodeNames
      split: if_splits prod.splits sum.splits)

lemma addDependencies_Inr:
  assumes "addDependencies env locals name data depNames g w = (Inr g', w')"
    and "dataName env data = Inr name"
  shows "nodeNames g' = nodeNames g \<union> set depNames \<and>
    set (edges g') = set (edges g) \<union> {name} \<times> set depNames \<and>
    (distinct (map fst (nodes g)) \<longrightarrow> distinct (map fst (nodes g'))) \<and>
    (distinct (edges g) \<longrightarrow> distinct (edges g'))"
  using assms
proof (induction depNames arbitrary: g w)
  case Nil
  then show ?case by simp
next
  case (Cons depName depNames)
  from Cons.prems obtain g1 w1 g2 where
    s1: "addDependencyNode env locals name depName g w = (Inr g1, w1)" and
    s2: "addDependency g1 name depName = Inr g2" and
    s3: "addDependencies env locals name data depNames g2 w1 = (Inr g', w')"
    by (auto split: prod.splits sum.splits)
  note a = addDependencyNode_Inr [OF s1] and b = addDependency_Inr [OF s2]
  have n2: "nodeNames g2 = insert depName (nodeNames g)"
    using a(1) b(1) by (simp add: nodeNames_def)
  have e2: "set (edges g2) = insert (name, depName) (set (edges g))"
    using a(2) b(2) by simp
  have d2: "distinct (map fst (nodes g)) \<longrightarrow> distinct (map fst (nodes g2))"
    using a(3) b(1) by simp
  have d3: "distinct (edges g) \<longrightarrow> distinct (edges g2)"
    using a(2) b(4) by simp
  from Cons.IH [OF s3 Cons.prems(2)] n2 e2 d2 d3 show ?case
    by auto
qed

lemma addDependencies_Inl:
  assumes "addDependencies env locals name data depNames g w = (Inl e, w')"
    and "dataName env data = Inr name" and "name \<in> nodeNames g"
  shows "\<exists>depName. depName \<in> set depNames \<and> \<not> inLocals locals depName \<and>
    fst (requirePackage env name depName w) = Inl e"
  using assms
proof (induction depNames arbitrary: g w)
  case Nil
  then show ?case by simp
next
  case (Cons depName depNames)
  show ?case
  proof (cases "addDependencyNode env locals name depName g w")
    case (Pair r w1)
    have v: "same_view env w w1"
      using addDependencyNode_view [of env w locals name depName g] Pair by simp
    show ?thesis
    proof (cases r)
      case (Inl e1)
      with Pair Cons.prems(1) have "e1 = e"
        by simp
      with addDependencyNode_Inl [of env locals name depName g w e w1] Pair Inl show ?thesis
        by auto
    next
      case (Inr g1)
      have n1: "name \<in> nodeNames g1"
        using addDependencyNode_Inr(1) [of env locals name depName g w g1 w1] Pair Inr Cons.prems(3)
        by simp
      then have "\<exists>g2. addDependency g1 name depName = Inr g2"
        by (simp add: addDependency_def hasNode_nodeNames)
      then obtain g2 where s2: "addDependency g1 name depName = Inr g2"
        by blast
      then have "name \<in> nodeNames g2"
        using n1 addDependency_Inr(1) [OF s2] by (simp add: nodeNames_def)
      moreover have "addDependencies env locals name data depNames g2 w1 = (Inl e, w')"
        using Cons.prems(1,2) Pair Inr s2 by simp
      ultimately obtain d where "d \<in> set depNames" and "\<not> inLocals locals d"
        and "fst (requirePackage env name d w1) = Inl e"
        using Cons.IH [of g2 w1] Cons.prems(2) by blast
      then show ?thesis
        using requirePackage_cong [OF v, of name d] by auto
    qed
  qed
qed

lemma dataName_dependencyNames:
  "dataName env data = Inr name \<Longrightarrow> \<exists>depNames. dependencyNames env data = Inr depNames"
proof (cases data)
  case (JObj kvs)
  show ?thesis
  proof (cases "map_of kvs ''dependencies''")
    case None
    then show ?thesis using JObj by (simp add: dependencyNames_def)
  next
    case (Some deps)
    then show ?thesis using JObj by (cases deps) (simp_all add: dependencyNames_def)
  qed
qed (simp_all add: dataName_def dependencyNames_def)

subsection \<open>The second loop of \<^verbatim>\<open>getPackageGraph\<close>\<close>

lemma declared_Cons:
  "dependencyNames env data = Inr depNames \<Longrightarrow>
     declared env ((name, data) # rest) = {name} \<times> set depNames \<union> declared env rest"
  by (auto simp: declared_def)

lemma declared_Nil: "declared env [] = {}"
  by (simp add: declared_def)

lemma declared_fst: "fst ` declared env rest \<subseteq> fst ` set rest"
  by (force simp: declared_def)

lemma declared_mono: "set rest \<subseteq> set locals \<Longrightarrow> declared env rest \<subseteq> declared env locals"
  by (auto simp: declared_def)

lemma addPackages_Inr:
  assumes "addPackages env locals rest g w = (Inr g', w')" and "named env rest"
  shows "nodeNames g' = nodeNames g \<union> fst ` set rest \<union> snd ` declared env rest \<and>
    set (edges g') = set (edges g) \<union> declared env rest \<and>
    (distinct (map fst (nodes g)) \<longrightarrow> distinct (map fst (nodes g'))) \<and>
    (distinct (edges g) \<longrightarrow> distinct (edges g'))"
  using assms
proof (induction rest arbitrary: g w)
  case Nil
  then show ?case by (simp add: declared_Nil)
next
  case (Cons entry rest)
  obtain name data where entry: "entry = (name, data)"
    by (cases entry)
  have nm: "dataName env data = Inr name" and nr: "named env rest"
    using Cons.prems(2) by (simp_all add: named_def entry)
  from Cons.prems(1) obtain depNames g1 w1 where
    d: "dependencyNames env data = Inr depNames" and
    s1: "addDependencies env locals name data depNames (addNode g name (Data data)) w = (Inr g1, w1)" and
    s2: "addPackages env locals rest g1 w1 = (Inr g', w')"
    by (auto simp: entry split: prod.splits sum.splits)
  note a = addDependencies_Inr [OF s1 nm]
  have n1: "nodeNames g1 = insert name (nodeNames g) \<union> set depNames"
    using a by (simp add: nodeNames_addNode)
  have e1: "set (edges g1) = set (edges g) \<union> {name} \<times> set depNames"
    using a by (simp add: edges_addNode)
  have d1: "distinct (map fst (nodes g)) \<longrightarrow> distinct (map fst (nodes g1))"
    using a by (simp add: distinct_addNode)
  have d2: "distinct (edges g) \<longrightarrow> distinct (edges g1)"
    using a by (simp add: edges_addNode)
  have sn: "snd ` ({name} \<times> set depNames \<union> declared env rest) = set depNames \<union> snd ` declared env rest"
    by force
  from Cons.IH [OF s2 nr] n1 e1 d1 d2 show ?case
    unfolding entry declared_Cons [OF d] sn by auto
qed

lemma addPackages_Inl:
  assumes "addPackages env locals rest g w = (Inl e, w')" and "named env rest"
  shows "\<exists>name depName. (name, depName) \<in> declared env rest \<and> \<not> inLocals locals depName \<and>
    fst (requirePackage env name depName w) = Inl e"
  using assms
proof (induction rest arbitrary: g w)
  case Nil
  then show ?case by simp
next
  case (Cons entry rest)
  obtain name data where entry: "entry = (name, data)"
    by (cases entry)
  have nm: "dataName env data = Inr name" and nr: "named env rest"
    using Cons.prems(2) by (simp_all add: named_def entry)
  obtain depNames where d: "dependencyNames env data = Inr depNames"
    using dataName_dependencyNames [OF nm] by blast
  obtain r w1 where
    s1: "addDependencies env locals name data depNames (addNode g name (Data data)) w = (r, w1)"
    by (cases "addDependencies env locals name data depNames (addNode g name (Data data)) w")
  have v: "same_view env w w1"
    using addDependencies_view [of env w locals name data depNames "addNode g name (Data data)"] s1
    by simp
  show ?case
  proof (cases r)
    case (Inl e1)
    then have "e1 = e"
      using Cons.prems(1) d s1 by (simp add: entry)
    then have
      "addDependencies env locals name data depNames (addNode g name (Data data)) w = (Inl e, w1)"
      using s1 Inl by simp
    from addDependencies_Inl [OF this nm] show ?thesis
      unfolding entry declared_Cons [OF d] by (auto simp: nodeNames_addNode)
  next
    case (Inr g1)
    then have "addPackages env locals rest g1 w1 = (Inl e, w')"
      using Cons.prems(1) d s1 by (simp add: entry)
    from Cons.IH [OF this nr] obtain n' d' where "(n', d') \<in> declared env rest"
      and "\<not> inLocals locals d'" and "fst (requirePackage env n' d' w1) = Inl e"
      by blast
    then show ?thesis
      unfolding entry declared_Cons [OF d] using requirePackage_cong [OF v, of n' d'] by auto
  qed
qed

lemma addPackages_succeeds:
  assumes "named env rest"
    and "\<forall>name depName. (name, depName) \<in> declared env rest \<and> \<not> inLocals locals depName \<longrightarrow>
      (\<exists>v. fst (requirePackage env name depName w) = Inr v)"
  shows "\<exists>g' w'. addPackages env locals rest g w = (Inr g', w')"
proof (cases "addPackages env locals rest g w")
  case (Pair r w')
  show ?thesis
  proof (cases r)
    case (Inl e)
    with Pair addPackages_Inl [of env locals rest g w e w'] assms(1)
    obtain name depName where "(name, depName) \<in> declared env rest"
      and "\<not> inLocals locals depName" and "fst (requirePackage env name depName w) = Inl e"
      by blast
    with assms(2) show ?thesis
      by force
  next
    case (Inr g')
    with Pair show ?thesis by simp
  qed
qed

text \<open>A dependency whose manifest cannot be required by any package that declares it
  stops the construction.\<close>

lemma addDependencies_blocked:
  assumes "addDependencies env locals name data depNames g w = (Inr g', w')"
    and "\<not> inLocals locals depName" and "depName \<notin> nodeNames g"
    and "fst (requirePackage env name depName w) = Inl e"
  shows "depName \<notin> set depNames"
  using assms
proof (induction depNames arbitrary: g w)
  case Nil
  then show ?case by simp
next
  case (Cons d depNames)
  from Cons.prems(1) obtain g1 w1 src g2 where
    s1: "addDependencyNode env locals name d g w = (Inr g1, w1)" and
    s2: "addDependency g1 src d = Inr g2" and
    s3: "addDependencies env locals name data depNames g2 w1 = (Inr g', w')"
    by (auto split: prod.splits sum.splits)
  have v: "same_view env w w1"
    using addDependencyNode_view [of env w locals name d g] s1 by simp
  have ne: "d \<noteq> depName"
  proof
    assume "d = depName"
    then have "fst (addDependencyNode env locals name d g w) = Inl e"
      using Cons.prems(2-4)
      by (cases "requirePackage env name depName w")
        (auto simp: addDependencyNode_def hasNode_nodeNames)
    with s1 show False by simp
  qed
  have "nodeNames g2 = insert d (nodeNames g)"
    using addDependencyNode_Inr(1) [OF s1] addDependency_Inr(1) [OF s2] by (simp add: nodeNames_def)
  then have "depName \<notin> nodeNames g2"
    using ne Cons.prems(3) by simp
  moreover have "fst (requirePackage env name depName w1) = Inl e"
    using requirePackage_cong [OF v, of name depName] Cons.prems(4) by simp
  ultimately show ?case
    using Cons.IH [OF s3 Cons.prems(2)] ne by simp
qed

lemma addPackages_blocked:
  assumes "addPackages env locals rest g w = (Inr g', w')"
    and "\<not> inLocals locals depName" and "depName \<notin> nodeNames g"
    and "set rest \<subseteq> set (own locals)" and "named env rest"
    and "\<forall>name. (name, depName) \<in> declared env rest \<longrightarrow>
      (\<exists>e. fst (requirePackage env name depName w) = Inl e)"
  shows "depName \<notin> snd ` declared env rest"
  using assms
proof (induction rest arbitrary: g w)
  case Nil
  then show ?case by (simp add: declared_Nil)
next
  case (Cons entry rest)
  obtain name data where entry: "entry = (name, data)"
    by (cases entry)
  have nm: "dataName env data = Inr name" and nr: "named env rest"
    using Cons.prems(5) by (simp_all add: named_def entry)
  from Cons.prems(1) obtain depNames g1 w1 where
    d: "dependencyNames env data = Inr depNames" and
    s1: "addDependencies env locals name data depNames (addNode g name (Data data)) w = (Inr g1, w1)" and
    s2: "addPackages env locals rest g1 w1 = (Inr g', w')"
    by (auto simp: entry split: prod.splits sum.splits)
  have v: "same_view env w w1"
    using addDependencies_view [of env w locals name data depNames "addNode g name (Data data)"] s1
    by simp
  have "name \<in> fst ` set (own locals)"
    using Cons.prems(4) by (force simp: entry)
  then have ne: "name \<noteq> depName"
    using Cons.prems(2) by (auto simp: inLocals_def)
  then have n0: "depName \<notin> nodeNames (addNode g name (Data data))"
    using Cons.prems(3) by (simp add: nodeNames_addNode)
  have a: "depName \<notin> set depNames"
  proof
    assume m: "depName \<in> set depNames"
    then have "(name, depName) \<in> declared env (entry # rest)"
      unfolding entry declared_Cons [OF d] by simp
    then obtain e where "fst (requirePackage env name depName w) = Inl e"
      using Cons.prems(6) by blast
    from addDependencies_blocked [OF s1 Cons.prems(2) n0 this] m show False
      by simp
  qed
  have b: "depName \<notin> nodeNames g1"
    using addDependencies_Inr [OF s1 nm] n0 a by simp
  have "\<forall>n. (n, depName) \<in> declared env rest \<longrightarrow>
      (\<exists>e. fst (requirePackage env n depName w1) = Inl e)"
  proof (intro allI impI)
    fix n
    assume "(n, depName) \<in> declared env rest"
    then have "(n, depName) \<in> declared env (entry # rest)"
      unfolding entry declared_Cons [OF d] by simp
    then have "\<exists>e. fst (requirePackage env n depName w) = Inl e"
      using Cons.prems(6) by blast
    then show "\<exists>e. fst (requirePackage env n depName w1) = Inl e"
      using requirePackage_cong [OF v, of n depName] by simp
  qed
  then have "depName \<notin> snd ` declared env rest"
    using Cons.IH [OF s2 Cons.prems(2) b _ nr] Cons.prems(4) by simp
  with a show ?case
    unfolding entry declared_Cons [OF d] by force
qed


subsection \<open>What is written to the console\<close>

lemma require_console: "console (snd (require env request w)) = console w"
  by (simp add: require_def split: option.splits)


lemma lernaPackages_console: "console (snd (lernaPackages env basePath w)) = console w"
  using require_console [of env "path_join env basePath ''lerna.json''" w]
  by (auto simp: lernaPackages_def split: prod.splits sum.splits)

lemma workspacePackages_console: "console (snd (workspacePackages env basePath w)) = console w"
proof (cases "require env (path_join env basePath ''package.json'') w")
  case (Pair r w1)
  then have "console w1 = console w"
    using require_console [of env "path_join env basePath ''package.json''" w] by simp
  then show ?thesis
    using Pair lernaPackages_console [of env basePath w1]
    by (auto simp: workspacePackages_def split: sum.splits option.splits)
qed

lemma getLernaPaths_console: "console (snd (getLernaPaths env basePath w)) = console w"
  using workspacePackages_console [of env "path_resolve env basePath" w]
  by (auto simp: getLernaPaths_def Let_def split: prod.splits sum.splits error.splits)




subsection \<open>The payloads of the nodes\<close>

lemma getLocal_own: "map_of (own locals) key = Some data \<Longrightarrow> getLocal locals key = Data data"
  by (simp add: getLocal_def)

lemma inLocals_own: "key \<in> fst ` set (own locals) \<Longrightarrow> inLocals locals key"
  by (auto simp: inLocals_def)

lemma payloads_nodes: "nodes g' = nodes g \<Longrightarrow> payloads env locals w g' = payloads env locals w g"
  by (simp add: payloads_def nodeNames_def)

lemma payloads_view:
  assumes "same_view env w w'"
  shows "payloads env locals w g = payloads env locals w' g"
  using requirePackage_cong [OF assms] by (simp add: payloads_def)

lemma payloads_emptyGraph: "payloads env locals w emptyGraph"
  by (simp add: payloads_def nodeNames_def emptyGraph_def)

lemma payloads_addNode_local:
  assumes "payloads env locals w g" and "inLocals locals name"
  shows "payloads env locals w (addNode g name (getLocal locals name))"
  unfolding payloads_def
proof
  fix depName
  assume "depName \<in> nodeNames (addNode g name (getLocal locals name))"
  then have "depName = name \<or> depName \<in> nodeNames g"
    by (simp add: nodeNames_addNode)
  then show "if inLocals locals depName
        then map_of (nodes (addNode g name (getLocal locals name))) depName =
          Some (getLocal locals depName)
        else (\<exists>name' depData.
                (name', depName) \<in> declared env (own locals) \<and>
                fst (requirePackage env name' depName w) = Inr depData \<and>
                map_of (nodes (addNode g name (getLocal locals name))) depName = Some (Data depData))"
    using assms by (auto simp: payloads_def payload_addNode)
qed

lemma payloads_addNode_remote:
  assumes "payloads env locals w g" and "\<not> inLocals locals depName"
    and "(name, depName) \<in> declared env (own locals)"
    and "fst (requirePackage env name depName w) = Inr depData"
  shows "payloads env locals w (addNode g depName (Data depData))"
  unfolding payloads_def
proof
  fix d
  assume "d \<in> nodeNames (addNode g depName (Data depData))"
  then have "d = depName \<or> d \<in> nodeNames g"
    by (simp add: nodeNames_addNode)
  then show "if inLocals locals d
        then map_of (nodes (addNode g depName (Data depData))) d = Some (getLocal locals d)
        else (\<exists>name' v.
                (name', d) \<in> declared env (own locals) \<and>
                fst (requirePackage env name' d w) = Inr v \<and>
                map_of (nodes (addNode g depName (Data depData))) d = Some (Data v))"
    using assms by (auto simp: payloads_def payload_addNode)
qed

lemma addDependencyNode_payloads:
  assumes "addDependencyNode env locals name depName g w = (Inr g1, w1)"
    and "payloads env locals w g" and "(name, depName) \<in> declared env (own locals)"
  shows "payloads env locals w g1"
proof (cases "hasNode g depName")
  case True
  with assms show ?thesis by (simp add: addDependencyNode_def)
next
  case False
  show ?thesis
  proof (cases "inLocals locals depName")
    case True
    with assms(1) False have "g1 = addNode g depName (getLocal locals depName)"
      by (simp add: addDependencyNode_def)
    with payloads_addNode_local [OF assms(2) True] show ?thesis by simp
  next
    case nl: False
    with assms(1) False obtain depData where
      "requirePackage env name depName w = (Inr depData, w1)"
      and "g1 = addNode g depName (Data depData)"
      by (auto simp: addDependencyNode_def split: prod.splits sum.splits)
    with payloads_addNode_remote [OF assms(2) nl assms(3), of depData] show ?thesis
      by simp
  qed
qed

lemma addDependencies_payloads:
  assumes "addDependencies env locals name data depNames g w = (Inr g', w')"
    and "payloads env locals w g" and "{name} \<times> set depNames \<subseteq> declared env (own locals)"
  shows "payloads env locals w g'"
  using assms
proof (induction depNames arbitrary: g w)
  case Nil
  then show ?case by simp
next
  case (Cons depName depNames)
  from Cons.prems(1) obtain g1 w1 src g2 where
    s1: "addDependencyNode env locals name depName g w = (Inr g1, w1)" and
    s2: "addDependency g1 src depName = Inr g2" and
    s3: "addDependencies env locals name data depNames g2 w1 = (Inr g', w')"
    by (auto split: prod.splits sum.splits)
  have v: "same_view env w w1"
    using addDependencyNode_view [of env w locals name depName g] s1 by simp
  have "payloads env locals w g1"
    using addDependencyNode_payloads [OF s1 Cons.prems(2)] Cons.prems(3) by simp
  then have "payloads env locals w1 g2"
    using payloads_nodes [OF addDependency_Inr(1) [OF s2]] payloads_view [OF v] by simp
  from Cons.IH [OF s3 this] Cons.prems(3) show ?case
    using payloads_view [OF v] by simp
qed

lemma addPackages_payloads:
  assumes "addPackages env locals rest g w = (Inr g', w')"
    and "payloads env locals w g" and "set rest \<subseteq> set (own locals)"
    and "distinct (map fst (own locals))"
  shows "payloads env locals w g'"
  using assms
proof (induction rest arbitrary: g w)
  case Nil
  then show ?case by simp
next
  case (Cons entry rest)
  obtain name data where entry: "entry = (name, data)"
    by (cases entry)
  from Cons.prems(1) obtain depNames g1 w1 where
    d: "dependencyNames env data = Inr depNames" and
    s1: "addDependencies env locals name data depNames (addNode g name (Data data)) w = (Inr g1, w1)" and
    s2: "addPackages env locals rest g1 w1 = (Inr g', w')"
    by (auto simp: entry split: prod.splits sum.splits)
  have v: "same_view env w w1"
    using addDependencies_view [of env w locals name data depNames "addNode g name (Data data)"] s1
    by simp
  have m: "(name, data) \<in> set (own locals)"
    using Cons.prems(3) by (simp add: entry)
  then have "map_of (own locals) name = Some data"
    using Cons.prems(4) by simp
  then have gl: "getLocal locals name = Data data"
    by (rule getLocal_own)
  have "inLocals locals name"
    using m by (force intro: inLocals_own)
  from payloads_addNode_local [OF Cons.prems(2) this]
  have p0: "payloads env locals w (addNode g name (Data data))"
    by (simp add: gl)
  have "{name} \<times> set depNames \<subseteq> declared env (own locals)"
    using m d by (auto simp: declared_def)
  from addDependencies_payloads [OF s1 p0 this] have "payloads env locals w1 g1"
    using payloads_view [OF v] by simp
  from Cons.IH [OF s2 this] Cons.prems(3,4) show ?case
    using payloads_view [OF v] by (simp add: entry)
qed

subsection \<open>\<^verbatim>\<open>getPackageGraph\<close>\<close>

lemma getLernaPaths_files: "files (snd (getLernaPaths env basePath w)) = files w"
  using getLernaPaths_view [of env w basePath] by (simp add: same_view_def)

lemma named_Nil: "named env (own emptyLocals)"
  by (simp add: named_def emptyLocals_def)

lemma distinct_emptyLocals: "distinct (map fst (own emptyLocals))"
  by (simp add: emptyLocals_def)


lemma getPackageGraph_unfold:
  assumes "getLernaPaths env ''.'' w = (Inr paths, w1)"
    and "gatherLocals env (paths @ mockPackages) emptyLocals w1 = (Inr locals, w2)"
  shows "getPackageGraph env w = addPackages env locals (own locals) emptyGraph w2"
  using assms by (simp add: getPackageGraph_def graphFromPaths_def)

lemma getPackageGraph_states:
  assumes "getLernaPaths env ''.'' w = (Inr paths, w1)"
    and "gatherLocals env (paths @ mockPackages) emptyLocals w1 = (Inr locals, w2)"
  shows "same_view env w w2" and "files w1 = files w" and "console w1 = console w"
    and "console w2 = console w @ readErrors env (files w) (paths @ mockPackages)"
proof -
  show f: "files w1 = files w"
    using getLernaPaths_files [of env "''.''" w] assms(1) by simp
  show c: "console w1 = console w"
    using getLernaPaths_console [of env "''.''" w] assms(1) by simp
  have "same_view env w w1"
    using getLernaPaths_view [of env w "''.''"] assms(1) by simp
  moreover have "same_view env w1 w2"
    using gatherLocals_view [of env w1 "paths @ mockPackages" emptyLocals] assms(2) by simp
  ultimately show "same_view env w w2"
    by (rule same_view_trans)
  show "console w2 = console w @ readErrors env (files w) (paths @ mockPackages)"
    using gatherLocals_state [OF assms(2)] f c by simp
qed

lemma nodeNames_emptyGraph: "nodeNames emptyGraph = {}"
  by (simp add: nodeNames_def emptyGraph_def)

lemma getPackageGraph_Inr:
  assumes "getLernaPaths env ''.'' w = (Inr paths, w1)"
    and "gatherLocals env (paths @ mockPackages) emptyLocals w1 = (Inr locals, w2)"
    and "fst (getPackageGraph env w) = Inr g"
  shows "nodeNames g = fst ` set (own locals) \<union> snd ` declared env (own locals)"
    and "set (edges g) = declared env (own locals)"
    and "distinct (map fst (nodes g))" and "distinct (edges g)"
    and "payloads env locals w g"
proof -
  obtain w' where r: "addPackages env locals (own locals) emptyGraph w2 = (Inr g, w')"
    using assms(3) getPackageGraph_unfold [OF assms(1,2)]
    by (cases "addPackages env locals (own locals) emptyGraph w2") simp
  from addPackages_Inr [OF r gatherLocals_named [OF assms(2) named_Nil]]
  show "nodeNames g = fst ` set (own locals) \<union> snd ` declared env (own locals)"
    and "set (edges g) = declared env (own locals)"
    and "distinct (map fst (nodes g))" and "distinct (edges g)"
    by (simp_all add: nodeNames_emptyGraph) (simp_all add: emptyGraph_def)
  have "payloads env locals w2 emptyGraph"
    by (rule payloads_emptyGraph)
  from addPackages_payloads [OF r this _ gatherLocals_distinct [OF assms(2) distinct_emptyLocals]]
  show "payloads env locals w g"
    using payloads_view [OF getPackageGraph_states(1) [OF assms(1,2)]] by simp
qed

lemma getPackageGraph_Inl:
  assumes "getLernaPaths env ''.'' w = (Inr paths, w1)"
    and "gatherLocals env (paths @ mockPackages) emptyLocals w1 = (Inr locals, w2)"
    and "fst (getPackageGraph env w) = Inl e"
  shows "\<exists>name depName. (name, depName) \<in> declared env (own locals) \<and>
    \<not> inLocals locals depName \<and> fst (requirePackage env name depName w) = Inl e"
proof -
  obtain w' where "addPackages env locals (own locals) emptyGraph w2 = (Inl e, w')"
    using assms(3) getPackageGraph_unfold [OF assms(1,2)]
    by (cases "addPackages env locals (own locals) emptyGraph w2") simp
  from addPackages_Inl [OF this gatherLocals_named [OF assms(2) named_Nil]]
  show ?thesis
    using requirePackage_cong [OF getPackageGraph_states(1) [OF assms(1,2)]] by auto
qed

lemma getPackageGraph_succeeds:
  assumes "getLernaPaths env ''.'' w = (Inr paths, w1)"
    and "gatherLocals env (paths @ mockPackages) emptyLocals w1 = (Inr locals, w2)"
    and "\<forall>name depName. (name, depName) \<in> declared env (own locals) \<and> \<not> inLocals locals depName \<longrightarrow>
      (\<exists>v. fst (requirePackage env name depName w) = Inr v)"
  shows "\<exists>g. fst (getPackageGraph env w) = Inr g"
proof (cases "fst (getPackageGraph env w)")
  case (Inl e)
  from getPackageGraph_Inl [OF assms(1,2) this] assms(3) show ?thesis
    by force
next
  case (Inr g)
  then show ?thesis by simp
qed

lemma getPackageGraph_blocked:
  assumes "getLernaPaths env ''.'' w = (Inr paths, w1)"
    and "gatherLocals env (paths @ mockPackages) emptyLocals w1 = (Inr locals, w2)"
    and "(name, depName) \<in> declared env (own locals)" and "\<not> inLocals locals depName"
    and "\<forall>name. (name, depName) \<in> declared env (own locals) \<longrightarrow>
      (\<exists>e. fst (requirePackage env name depName w) = Inl e)"
  shows "\<exists>e. fst (getPackageGraph env w) = Inl e"
proof (cases "fst (getPackageGraph env w)")
  case (Inl e)
  then show ?thesis by simp
next
  case (Inr g)
  then obtain w' where r: "addPackages env locals (own locals) emptyGraph w2 = (Inr g, w')"
    using getPackageGraph_unfold [OF assms(1,2)]
    by (cases "addPackages env locals (own locals) emptyGraph w2") simp
  have "\<forall>name. (name, depName) \<in> declared env (own locals) \<longrightarrow>
      (\<exists>e. fst (requirePackage env name depName w2) = Inl e)"
    using assms(5) requirePackage_cong [OF getPackageGraph_states(1) [OF assms(1,2)]] by simp
  from addPackages_blocked [OF r assms(4) _ _ gatherLocals_named [OF assms(2) named_Nil] this]
  have "depName \<notin> snd ` declared env (own locals)"
    by (simp add: nodeNames_emptyGraph)
  with assms(3) show ?thesis
    by force
qed

subsection \<open>The example workspaces, evaluated\<close>

lemma ex_paths:
  "getLernaPaths exEnv ''.'' exWorld =
     (Inr [''/r/packages/a'', ''/r/packages/b'', ''/r/packages/c''], exWorld1)"
  by (simp add: getLernaPaths_def workspacePackages_def require_def exEnv_def exWorld_def exWorld1_def
      exFiles_def manifestRoot_def truthy_val_def existsSync_def)

lemma ex_locals:
  "gatherLocals exEnv ([''/r/packages/a'', ''/r/packages/b'', ''/r/packages/c''] @ mockPackages)
     emptyLocals exWorld1 =
   (Inr \<lparr>own = [(''a'', manifestA), (''b'', manifestB)], proto = None\<rparr>,
    exWorld1\<lparr>console := exErrors\<rparr>)"
  by (simp add: mockPackages_def readJSONFile_def readFileSync_def exEnv_def exWorld_def exWorld1_def
      exFiles_def dataName_def manifestA_def manifestB_def exErrors_def emptyLocals_def assign_def)

lemma ex_run:
  "getPackageGraph exEnv exWorld =
     (Inr \<lparr>nodes = [(''a'', Data manifestA), (''b'', Data manifestB)], edges = [(''a'', ''b'')]\<rparr>,
      exWorld1\<lparr>console := exErrors\<rparr>)"
proof -
  have "dependencyNames exEnv manifestA = Inr [''b'']" and "dependencyNames exEnv manifestB = Inr []"
    and "dataName exEnv manifestA = Inr ''a''"
    by (simp_all add: dependencyNames_def dataName_def manifestA_def manifestB_def)
  then show ?thesis
    unfolding getPackageGraph_unfold [OF ex_paths ex_locals]
    by (simp add: emptyGraph_def addDependencyNode_def hasNode_def addNode_def addDependency_def
        inLocals_def getLocal_def)
qed

lemma ex_graph:
  "fst (getPackageGraph exEnv exWorld) =
     Inr \<lparr>nodes = [(''a'', Data manifestA), (''b'', Data manifestB)], edges = [(''a'', ''b'')]\<rparr>"
  by (simp add: ex_run)



text \<open>The platform that looks modules up as Node does.\<close>

lemma nodeEnv_simps:
  "path_resolve nodeEnv = (\<lambda>p. ''/r'')"
  "path_join nodeEnv = (\<lambda>a b. a @ ''/'' @ b)"
  "json_parse nodeEnv = json_parse exEnv"
  "glob_sync nodeEnv = glob_sync exEnv"
  "to_string nodeEnv = to_string exEnv"
  "resolve_from nodeEnv = nodeModulesLookup"
  by (simp_all add: nodeEnv_def exEnv_def)

lemma utils_dirs:
  "ancestorDirs [] ''/r/buildutils/lib/utils.js'' =
     [''/r/buildutils/lib/utils.js'', ''/r/buildutils/lib'', ''/r/buildutils'', ''/r'', '''']"
  by simp

lemma resolve_absolute:
  "resolve nodeEnv fs (CHR ''/'' # request) =
     (if fs (CHR ''/'' # request) = None then None else Some (CHR ''/'' # request))"
  by (simp add: nodeEnv_def)

lemma resolve_package:
  assumes "c \<noteq> CHR ''/''"
  shows "resolve nodeEnv fs [c] =
     List.find (\<lambda>file. fs file \<noteq> None)
       (map (\<lambda>dir. dir @ ''/node_modules/'' @ [c] @ ''/index.js'')
          [''/r/buildutils/lib/utils.js'', ''/r/buildutils/lib'', ''/r/buildutils'', ''/r'', ''''])"
  using assms by (simp add: nodeEnv_def nodeModulesLookup_def)

lemma resolve_manifest:
  assumes "c \<noteq> CHR ''/''"
  shows "resolve nodeEnv fs (c # ''/package.json'') =
     List.find (\<lambda>file. fs file \<noteq> None)
       (map (\<lambda>dir. dir @ ''/node_modules/'' @ [c] @ ''/package.json'')
          [''/r/buildutils/lib/utils.js'', ''/r/buildutils/lib'', ''/r/buildutils'', ''/r'', ''''])"
  using assms by (simp add: nodeEnv_def nodeModulesLookup_def)

lemma node_paths:
  assumes "files w ''/r/package.json'' = Some ''R''" and "cache w = Map.empty"
    and "files w ''/r/packages/a/package.json'' \<noteq> None"
    and "files w ''/r/packages/b/package.json'' \<noteq> None"
    and "files w ''/r/packages/c/package.json'' \<noteq> None"
    and "files w ''/r/packages/d/package.json'' = None"
  shows "getLernaPaths nodeEnv ''.'' w =
     (Inr [''/r/packages/a'', ''/r/packages/b'', ''/r/packages/c''],
      w\<lparr>cache := [''/r/package.json'' \<mapsto> manifestRoot]\<rparr>)"
  using assms
  by (simp add: getLernaPaths_def workspacePackages_def require_def nodeEnv_simps resolve_absolute
      exEnv_def manifestRoot_def truthy_val_def existsSync_def)

lemma hoisted_paths:
  "getLernaPaths nodeEnv ''.'' hoistedWorld =
     (Inr [''/r/packages/a'', ''/r/packages/b'', ''/r/packages/c''],
      hoistedWorld\<lparr>cache := [''/r/package.json'' \<mapsto> manifestRoot]\<rparr>)"
  by (rule node_paths) (simp_all add: hoistedWorld_def exFiles_def)

lemma hoisted_locals:
  "gatherLocals nodeEnv ([''/r/packages/a'', ''/r/packages/b'', ''/r/packages/c''] @ mockPackages)
     emptyLocals (hoistedWorld\<lparr>cache := [''/r/package.json'' \<mapsto> manifestRoot]\<rparr>) =
   (Inr \<lparr>own = [(''a'', manifestA2), (''b'', manifestB)], proto = None\<rparr>,
    hoistedWorld\<lparr>cache := [''/r/package.json'' \<mapsto> manifestRoot], console := exErrors\<rparr>)"
  by (simp add: mockPackages_def readJSONFile_def readFileSync_def nodeEnv_simps exEnv_def
      hoistedWorld_def exFiles_def dataName_def manifestA2_def manifestB_def exErrors_def
      emptyLocals_def assign_def)

lemma hoisted_resolve:
  "resolve nodeEnv (files hoistedWorld) ''a'' = Some ''/r/node_modules/a/index.js''"
  "resolve_from nodeEnv (files hoistedWorld) ''/r/node_modules/a/index.js'' ''x/package.json'' = None"
  "resolve nodeEnv (files hoistedWorld) ''x/package.json'' =
     Some ''/r/buildutils/node_modules/x/package.json''"
  by (simp_all add: resolve_package resolve_manifest nodeEnv_simps nodeModulesLookup_def
      hoistedWorld_def exFiles_def)

lemma hoisted_requirePackage:
  assumes "files w = files hoistedWorld"
  shows "fst (requirePackage nodeEnv ''a'' ''x'' w) = Inl (ModuleNotFound ''x/package.json'')"
  using hoisted_resolve(1,2) by (simp add: requirePackage_def assms)

lemma hoisted_require:
  "fst (require nodeEnv ''x/package.json'' hoistedWorld) = Inr manifestX"
  using hoisted_resolve(3)
  by (simp add: require_def) (simp add: hoistedWorld_def exFiles_def nodeEnv_simps exEnv_def)

lemma manifest_names:
  "dataName env manifestA = Inr ''a''" "dataName env manifestA2 = Inr ''a''"
  "dataName env manifestA3 = Inr ''a''" "dataName env manifestB = Inr ''b''"
  "dependencyNames env manifestA = Inr [''b'']" "dependencyNames env manifestA2 = Inr [''b'', ''x'']"
  "dependencyNames env manifestA3 = Inr [''y'', ''x'']" "dependencyNames env manifestB = Inr []"
  "dataName env manifestA4 = Inr ''a''" "dependencyNames env manifestA4 = Inr [''constructor'']"
  by (simp_all add: dependencyNames_def dataName_def manifestA_def manifestA2_def manifestA3_def
      manifestA4_def manifestB_def)

lemma hoisted_run:
  "fst (getPackageGraph nodeEnv hoistedWorld) = Inl (ModuleNotFound ''x/package.json'')"
proof -
  let ?w = "hoistedWorld\<lparr>cache := [''/r/package.json'' \<mapsto> manifestRoot], console := exErrors\<rparr>"
  have "fst (requirePackage nodeEnv ''a'' ''x'' ?w) = Inl (ModuleNotFound ''x/package.json'')"
    by (rule hoisted_requirePackage) simp
  then show ?thesis
    unfolding getPackageGraph_unfold [OF hoisted_paths hoisted_locals]
    by (cases "requirePackage nodeEnv ''a'' ''x'' ?w")
      (simp add: manifest_names emptyGraph_def addDependencyNode_def hasNode_def addNode_def
        addDependency_def inLocals_def getLocal_def objectPrototypeNames_def)
qed






text \<open>The workspace where \<open>a\<close> does not resolve and \<open>x\<close> is loaded directly.\<close>

lemma fallback_paths:
  "getLernaPaths nodeEnv ''.'' fallbackWorld =
     (Inr [''/r/packages/a'', ''/r/packages/b'', ''/r/packages/c''],
      fallbackWorld\<lparr>cache := [''/r/package.json'' \<mapsto> manifestRoot]\<rparr>)"
  by (rule node_paths) (simp_all add: fallbackWorld_def exFiles_def)

lemma fallback_locals:
  "gatherLocals nodeEnv ([''/r/packages/a'', ''/r/packages/b'', ''/r/packages/c''] @ mockPackages)
     emptyLocals (fallbackWorld\<lparr>cache := [''/r/package.json'' \<mapsto> manifestRoot]\<rparr>) =
   (Inr \<lparr>own = [(''a'', manifestA2), (''b'', manifestB)], proto = None\<rparr>,
    fallbackWorld\<lparr>cache := [''/r/package.json'' \<mapsto> manifestRoot], console := exErrors\<rparr>)"
  by (simp add: mockPackages_def readJSONFile_def readFileSync_def nodeEnv_simps exEnv_def
      fallbackWorld_def exFiles_def dataName_def manifestA2_def manifestB_def exErrors_def
      emptyLocals_def assign_def)

lemma fallback_resolve:
  "resolve nodeEnv (files fallbackWorld) ''a'' = None"
  "resolve nodeEnv (files fallbackWorld) ''x/package.json'' =
     Some ''/r/buildutils/node_modules/x/package.json''"
  by (simp_all add: resolve_package resolve_manifest fallbackWorld_def exFiles_def)

lemma fallback_requirePackage:
  "fst (requirePackage nodeEnv ''a'' ''x'' fallbackWorld) = Inr manifestX"
  using fallback_resolve
  by (simp add: requirePackage_def require_def Let_def)
    (simp add: fallbackWorld_def exFiles_def nodeEnv_simps exEnv_def Let_def)

lemma a2_declared:
  "declared env [(''a'', manifestA2), (''b'', manifestB)] = {(''a'', ''b''), (''a'', ''x'')}"
  unfolding declared_Cons [OF manifest_names(6)] declared_Cons [OF manifest_names(8)] declared_Nil
  by auto














text \<open>
  The second run of the example starts with the root manifest in the module cache and
  three lines on the console, and returns the graph of the first run.
\<close>

theorem getPackageGraph_repeatable_witness:
  "cache (exWorld1\<lparr>console := exErrors\<rparr>) ''/r/package.json'' = Some manifestRoot \<and>
   fst (getPackageGraph exEnv (exWorld1\<lparr>console := exErrors\<rparr>)) =
     Inr \<lparr>nodes = [(''a'', Data manifestA), (''b'', Data manifestB)], edges = [(''a'', ''b'')]\<rparr>"
  using getPackageGraph_repeatable [of exEnv exWorld] by (simp add: ex_run exWorld1_def)

text \<open>
  C1. Let the first loop have gathered the local packages \<open>locals\<close>. When these are two
  packages \<open>A\<close> and \<open>B\<close>, the manifest of \<open>A\<close> declares the one dependency \<open>B\<close> and the
  manifest of \<open>B\<close> declares none, \<^verbatim>\<open>getPackageGraph\<close> returns a graph whose node set is
  \<open>{A, B}\<close> and whose edge set is the single edge from \<open>A\<close> to \<open>B\<close>. In general a graph
  that is returned has one node per package name met (the local names and the names
  they declare as dependencies) and one edge per pair of a local package and a
  dependency it declares.
\<close>

theorem getPackageGraph_nodes_and_edges:
  assumes "getLernaPaths env ''.'' w = (Inr paths, w1)"
    and "gatherLocals env (paths @ mockPackages) emptyLocals w1 = (Inr locals, w2)"
  shows "(\<forall>A B dataA dataB.
            A \<noteq> B \<and> set (own locals) = {(A, dataA), (B, dataB)} \<and>
            dependencyNames env dataA = Inr [B] \<and> dependencyNames env dataB = Inr [] \<longrightarrow>
            (\<exists>g. fst (getPackageGraph env w) = Inr g \<and>
                 nodeNames g = {A, B} \<and> set (edges g) = {(A, B)})) \<and>
         (\<forall>g. fst (getPackageGraph env w) = Inr g \<longrightarrow>
            nodeNames g = fst ` set (own locals) \<union> snd ` declared env (own locals) \<and>
            distinct (map fst (nodes g)) \<and>
            set (edges g) = declared env (own locals) \<and> distinct (edges g))"
proof (intro conjI allI impI)
  fix A B dataA dataB
  assume h: "A \<noteq> B \<and> set (own locals) = {(A, dataA), (B, dataB)} \<and>
            dependencyNames env dataA = Inr [B] \<and> dependencyNames env dataB = Inr []"
  have d: "declared env (own locals) = {(A, B)}"
    using h by (auto simp: declared_def)
  have "inLocals locals B"
    using h by (auto intro: inLocals_own)
  with d have "\<forall>name depName.
      (name, depName) \<in> declared env (own locals) \<and> \<not> inLocals locals depName \<longrightarrow>
      (\<exists>v. fst (requirePackage env name depName w) = Inr v)"
    by simp
  from getPackageGraph_succeeds [OF assms this]
  obtain g where r: "fst (getPackageGraph env w) = Inr g"
    by blast
  from getPackageGraph_Inr(1,2) [OF assms r] h d
  have "nodeNames g = {A, B} \<and> set (edges g) = {(A, B)}"
    by auto
  with r show "\<exists>g. fst (getPackageGraph env w) = Inr g \<and>
      nodeNames g = {A, B} \<and> set (edges g) = {(A, B)}"
    by blast
next
  fix g
  assume r: "fst (getPackageGraph env w) = Inr g"
  show "nodeNames g = fst ` set (own locals) \<union> snd ` declared env (own locals)"
    and "distinct (map fst (nodes g))"
    and "set (edges g) = declared env (own locals)" and "distinct (edges g)"
    using getPackageGraph_Inr [OF assms r] by simp_all
qed

theorem getPackageGraph_nodes_and_edges_witness:
  "\<exists>g. fst (getPackageGraph exEnv exWorld) = Inr g \<and>
     nodeNames g = {''a'', ''b''} \<and> set (edges g) = {(''a'', ''b'')}"
proof -
  have "''a'' \<noteq> ''b'' \<and>
      set (own \<lparr>own = [(''a'', manifestA), (''b'', manifestB)], proto = None\<rparr>) =
        {(''a'', manifestA), (''b'', manifestB)} \<and>
      dependencyNames exEnv manifestA = Inr [''b''] \<and> dependencyNames exEnv manifestB = Inr []"
    by (simp add: manifest_names)
  then show ?thesis
    by (rule getPackageGraph_nodes_and_edges [OF ex_paths ex_locals, THEN conjunct1, rule_format])
qed








subsection \<open>Invariants of the construction\<close>

lemma get_prop_Inl: "get_prop v key = Inl e \<Longrightarrow> e = TypeError"
  by (cases v) simp_all

lemma require_Inl:
  "fst (require env request w) = Inl e \<Longrightarrow>
     e = ModuleNotFound request \<or> (\<exists>p. e = ENOENT p) \<or> e = SyntaxError"
  by (auto simp: require_def split: option.splits)

lemma requirePackage_Inl:
  "fst (requirePackage env parent module w) = Inl e \<Longrightarrow>
     (\<exists>r. e = ModuleNotFound r) \<or> (\<exists>p. e = ENOENT p) \<or> e = SyntaxError"
  using require_Inl [of env _ w e]
  by (auto simp: requirePackage_def Let_def split: option.splits)

lemma lernaPackages_Inl:
  "fst (lernaPackages env basePath w) = Inl e \<Longrightarrow>
     (\<exists>r. e = ModuleNotFound r) \<or> (\<exists>p. e = ENOENT p) \<or> e = SyntaxError \<or> e = TypeError"
  using require_Inl [of env "path_join env basePath ''lerna.json''" w e]
  by (auto simp: lernaPackages_def split: prod.splits sum.splits dest: get_prop_Inl)

lemma workspacePackages_Inl:
  assumes "fst (workspacePackages env basePath w) = Inl e"
  shows "(\<exists>r. e = ModuleNotFound r) \<or> (\<exists>p. e = ENOENT p) \<or> e = SyntaxError \<or> e = TypeError"
proof (cases "require env (path_join env basePath ''package.json'') w")
  case (Pair r w1)
  show ?thesis
  proof (cases r)
    case (Inl e1)
    then show ?thesis
      using assms Pair require_Inl [of env "path_join env basePath ''package.json''" w e]
      by (auto simp: workspacePackages_def)
  next
    case (Inr baseConfig)
    then show ?thesis
      using assms Pair lernaPackages_Inl [of env basePath w1 e]
      by (auto simp: workspacePackages_def split: sum.splits option.splits if_splits
          dest: get_prop_Inl)
  qed
qed

lemma expandGlobs_Inl: "expandGlobs env fs basePath configs paths = Inl e \<Longrightarrow> e = TypeError"
  by (induction env fs basePath configs paths rule: expandGlobs.induct) simp_all

lemma iterate_Inl: "iterate v = Inl e \<Longrightarrow> e = TypeError"
  by (cases v rule: iterate.cases) simp_all

lemma getLernaPaths_Inl:
  assumes "fst (getLernaPaths env basePath w) = Inl e"
  shows "(\<exists>p. e = ConfigurationError p) \<or> (\<exists>p. e = ENOENT p) \<or> e = SyntaxError \<or> e = TypeError"
proof (cases "workspacePackages env (path_resolve env basePath) w")
  case (Pair r w1)
  show ?thesis
  proof (cases r)
    case (Inl e1)
    then show ?thesis
      using assms Pair workspacePackages_Inl [of env "path_resolve env basePath" w e1]
      by (auto simp: getLernaPaths_def)
  next
    case (Inr packages)
    then show ?thesis
      using assms Pair
      by (auto simp: getLernaPaths_def split: sum.splits dest: iterate_Inl expandGlobs_Inl)
  qed
qed

lemma gatherLocals_Inl:
  "fst (gatherLocals env paths locals w) = Inl e \<Longrightarrow> e = TypeError"
  using gatherLocals_Inl_null by blast

lemma addDependencies_no_node_error:
  assumes "dataName env data = Inr name" and "name \<in> nodeNames g"
  shows "fst (addDependencies env locals name data depNames g w) \<noteq> Inl (NodeDoesNotExist n)"
proof
  assume a: "fst (addDependencies env locals name data depNames g w) = Inl (NodeDoesNotExist n)"
  obtain w' where "addDependencies env locals name data depNames g w = (Inl (NodeDoesNotExist n), w')"
    using a by (cases "addDependencies env locals name data depNames g w") simp
  from addDependencies_Inl [OF this assms] requirePackage_Inl show False
    by blast
qed

lemma addPackages_no_node_error:
  assumes "named env rest"
  shows "fst (addPackages env locals rest g w) \<noteq> Inl (NodeDoesNotExist n)"
proof
  assume a: "fst (addPackages env locals rest g w) = Inl (NodeDoesNotExist n)"
  obtain w' where "addPackages env locals rest g w = (Inl (NodeDoesNotExist n), w')"
    using a by (cases "addPackages env locals rest g w") simp
  from addPackages_Inl [OF this assms] requirePackage_Inl show False
    by blast
qed

lemma addDependencies_consistent:
  assumes "addDependencies env locals name data depNames g w = (Inr g', w')"
    and "dataName env data = Inr name" and "name \<in> nodeNames g" and "consistent g"
  shows "consistent g'"
  using addDependencies_Inr [OF assms(1,2)] assms(3,4) by (auto simp: consistent_def)

lemma addPackages_consistent:
  assumes "addPackages env locals rest g w = (Inr g', w')" and "named env rest" and "consistent g"
  shows "consistent g'"
  using addPackages_Inr [OF assms(1,2)] assms(3) declared_fst [of env rest]
  by (auto simp: consistent_def)

lemma consistent_emptyGraph: "consistent emptyGraph"
  by (simp add: consistent_def emptyGraph_def)

text \<open>
  C8. With the graph container as the specification describes it: \<^verbatim>\<open>getPackageGraph\<close>
  never adds an edge whose source is not yet a node (the container's error for that is
  never raised), and the graph it returns has exactly one node per name and the source
  of each of its edges among its nodes. The same holds throughout the construction:
  started from any consistent graph, the loop over the packages and the loop over the
  dependencies of a package whose node has been added never add an edge from a missing
  source and, when they return, return a consistent graph. Adding a node under a name
  keeps one node per name: the name then maps to the payload added last.
\<close>

theorem graph_construction_invariants:
  "(\<forall>n. fst (getPackageGraph env w) \<noteq> Inl (NodeDoesNotExist n)) \<and>
   (\<forall>g. fst (getPackageGraph env w) = Inr g \<longrightarrow> consistent g) \<and>
   (\<forall>locals rest g0 w0. named env rest \<and> consistent g0 \<longrightarrow>
      (\<forall>n. fst (addPackages env locals rest g0 w0) \<noteq> Inl (NodeDoesNotExist n)) \<and>
      (\<forall>g. fst (addPackages env locals rest g0 w0) = Inr g \<longrightarrow> consistent g)) \<and>
   (\<forall>locals name data depNames g0 w0.
      dataName env data = Inr name \<and> name \<in> nodeNames g0 \<and> consistent g0 \<longrightarrow>
      (\<forall>n. fst (addDependencies env locals name data depNames g0 w0) \<noteq> Inl (NodeDoesNotExist n)) \<and>
      (\<forall>g. fst (addDependencies env locals name data depNames g0 w0) = Inr g \<longrightarrow> consistent g)) \<and>
   (\<forall>g0 name data. distinct (map fst (nodes g0)) \<longrightarrow>
      distinct (map fst (nodes (addNode g0 name data))) \<and>
      map_of (nodes (addNode g0 name data)) name = Some data \<and>
      nodeNames (addNode g0 name data) = insert name (nodeNames g0))"
proof (intro conjI allI impI)
  fix g0 :: depgraph and name data
  assume "distinct (map fst (nodes g0))"
  then show "distinct (map fst (nodes (addNode g0 name data)))"
    by (rule distinct_addNode)
  show "map_of (nodes (addNode g0 name data)) name = Some data"
    by (simp add: addNode_def update_conv')
  show "nodeNames (addNode g0 name data) = insert name (nodeNames g0)"
    by (rule nodeNames_addNode)
next
  fix locals name data depNames g0 w0 n
  assume h: "dataName env data = Inr name \<and> name \<in> nodeNames g0 \<and> consistent g0"
  then show "fst (addDependencies env locals name data depNames g0 w0) \<noteq> Inl (NodeDoesNotExist n)"
    by (simp add: addDependencies_no_node_error)
next
  fix locals name data depNames g0 w0 g
  assume h: "dataName env data = Inr name \<and> name \<in> nodeNames g0 \<and> consistent g0"
    and r: "fst (addDependencies env locals name data depNames g0 w0) = Inr g"
  obtain w' where "addDependencies env locals name data depNames g0 w0 = (Inr g, w')"
    using r by (cases "addDependencies env locals name data depNames g0 w0") simp
  then show "consistent g"
    using h addDependencies_consistent by blast
next
  fix locals rest g0 w0 n
  assume "named env rest \<and> consistent g0"
  then show "fst (addPackages env locals rest g0 w0) \<noteq> Inl (NodeDoesNotExist n)"
    by (simp add: addPackages_no_node_error)
next
  fix locals rest g0 w0 g
  assume h: "named env rest \<and> consistent g0"
    and r: "fst (addPackages env locals rest g0 w0) = Inr g"
  obtain w' where "addPackages env locals rest g0 w0 = (Inr g, w')"
    using r by (cases "addPackages env locals rest g0 w0") simp
  then show "consistent g"
    using h addPackages_consistent by blast
next
  fix n
  show "fst (getPackageGraph env w) \<noteq> Inl (NodeDoesNotExist n)"
  proof
    assume a: "fst (getPackageGraph env w) = Inl (NodeDoesNotExist n)"
    obtain r1 w1 where s1: "getLernaPaths env ''.'' w = (r1, w1)"
      by (cases "getLernaPaths env ''.'' w")
    show False
    proof (cases r1)
      case (Inl e)
      with a s1 getLernaPaths_Inl [of env "''.''" w e] show False
        by (auto simp: getPackageGraph_def)
    next
      case (Inr paths)
      obtain r2 w2 where s2: "gatherLocals env (paths @ mockPackages) emptyLocals w1 = (r2, w2)"
        by (cases "gatherLocals env (paths @ mockPackages) emptyLocals w1")
      show False
      proof (cases r2)
        case (Inl e)
        with a s1 s2 Inr gatherLocals_Inl [of env "paths @ mockPackages" emptyLocals w1 e] show False
          by (auto simp: getPackageGraph_def graphFromPaths_def)
      next
        case locals: (Inr locals)
        have "named env (own locals)"
          using gatherLocals_named [of env "paths @ mockPackages" emptyLocals w1 locals w2] s2 locals
          by (simp add: named_Nil)
        from addPackages_no_node_error [OF this, of locals emptyGraph w2 n] show False
          using a s1 s2 Inr locals by (simp add: getPackageGraph_def graphFromPaths_def)
      qed
    qed
  qed
next
  fix g
  assume r: "fst (getPackageGraph env w) = Inr g"
  obtain r1 w1 where s1: "getLernaPaths env ''.'' w = (r1, w1)"
    by (cases "getLernaPaths env ''.'' w")
  obtain paths where p: "r1 = Inr paths"
    using r s1 by (cases r1) (simp_all add: getPackageGraph_def)
  obtain r2 w2 where s2: "gatherLocals env (paths @ mockPackages) emptyLocals w1 = (r2, w2)"
    by (cases "gatherLocals env (paths @ mockPackages) emptyLocals w1")
  obtain locals where l: "r2 = Inr locals"
    using r s1 s2 p by (cases r2) (simp_all add: getPackageGraph_def graphFromPaths_def)
  have n: "named env (own locals)"
    using gatherLocals_named [of env "paths @ mockPackages" emptyLocals w1 locals w2] s2 l
    by (simp add: named_Nil)
  obtain w' where "addPackages env locals (own locals) emptyGraph w2 = (Inr g, w')"
    using r s1 s2 p l
    by (cases "addPackages env locals (own locals) emptyGraph w2")
      (simp add: getPackageGraph_def graphFromPaths_def)
  from addPackages_consistent [OF this n consistent_emptyGraph] show "consistent g" .
qed

theorem graph_construction_invariants_witness:
  "consistent \<lparr>nodes = [(''a'', Data manifestA), (''b'', Data manifestB)], edges = [(''a'', ''b'')]\<rparr>"
  using graph_construction_invariants [of exEnv exWorld, THEN conjunct2, THEN conjunct1, rule_format,
      OF ex_graph] .

subsection \<open>Resolving the manifest of a dependency\<close>

lemma requirePackage_strategy:
  "fst (requirePackage env name depName w) =
     (case resolve env (files w) name of
        None \<Rightarrow> fst (require env (depName @ ''/package.json'') w)
      | Some parentModulePath \<Rightarrow>
          (case resolve_from env (files w) parentModulePath (depName @ ''/package.json'') of
             None \<Rightarrow> Inl (ModuleNotFound (depName @ ''/package.json''))
           | Some requirePath \<Rightarrow> fst (require env requirePath w)))"
  by (simp add: requirePackage_def Let_def split: option.splits)

text \<open>
  C4, as far as it holds. Let the first loop have left the mapping \<open>locals\<close>, and let a
  package of it declare the dependency \<open>depName\<close>. In a graph that is returned, the node
  of a dependency that is \<^verbatim>\<open>in locals\<close> carries \<^verbatim>\<open>locals[depName]\<close>, and nothing is resolved
  for it; the node of any other dependency carries what \<^verbatim>\<open>requirePackage\<close> returned for it
  and a package that declares it. \<^verbatim>\<open>requirePackage\<close> resolves the declaring package: when
  that fails, the manifest of the dependency is required directly by name and the
  failure to resolve the declaring package is not raised; when it succeeds, the manifest
  is resolved relative to the location found, and a failure of that resolution is raised
  at once, the direct resolution is not tried. An error of \<^verbatim>\<open>requirePackage\<close> reaches the
  caller of \<^verbatim>\<open>getPackageGraph\<close>: a dependency that is not \<^verbatim>\<open>in locals\<close> and for which
  \<^verbatim>\<open>requirePackage\<close> fails for every package that declares it makes the call fail; every
  error of the call is such an error; and the call returns a graph when
  \<^verbatim>\<open>requirePackage\<close> succeeds for every declared dependency that is not \<^verbatim>\<open>in locals\<close>.
\<close>

theorem dependency_resolution_order:
  assumes "getLernaPaths env ''.'' w = (Inr paths, w1)"
    and "gatherLocals env (paths @ mockPackages) emptyLocals w1 = (Inr locals, w2)"
  shows "(\<forall>g name depName.
            fst (getPackageGraph env w) = Inr g \<and> (name, depName) \<in> declared env (own locals) \<and>
            inLocals locals depName \<longrightarrow>
            map_of (nodes g) depName = Some (getLocal locals depName)) \<and>
         (\<forall>g depName data.
            fst (getPackageGraph env w) = Inr g \<and> map_of (own locals) depName = Some data \<longrightarrow>
            map_of (nodes g) depName = Some (Data data)) \<and>
         (\<forall>g name depName.
            fst (getPackageGraph env w) = Inr g \<and> (name, depName) \<in> declared env (own locals) \<and>
            \<not> inLocals locals depName \<longrightarrow>
            (\<exists>name' depData.
               (name', depName) \<in> declared env (own locals) \<and>
               fst (requirePackage env name' depName w) = Inr depData \<and>
               map_of (nodes g) depName = Some (Data depData))) \<and>
         (\<forall>name depName.
            fst (requirePackage env name depName w) =
              (case resolve env (files w) name of
                 None \<Rightarrow> fst (require env (depName @ ''/package.json'') w)
               | Some parentModulePath \<Rightarrow>
                   (case resolve_from env (files w) parentModulePath (depName @ ''/package.json'') of
                      None \<Rightarrow> Inl (ModuleNotFound (depName @ ''/package.json''))
                    | Some requirePath \<Rightarrow> fst (require env requirePath w)))) \<and>
         (\<forall>name depName.
            (name, depName) \<in> declared env (own locals) \<and> \<not> inLocals locals depName \<and>
            (\<forall>name'. (name', depName) \<in> declared env (own locals) \<longrightarrow>
               (\<exists>e. fst (requirePackage env name' depName w) = Inl e)) \<longrightarrow>
            (\<exists>e. fst (getPackageGraph env w) = Inl e)) \<and>
         (\<forall>e. fst (getPackageGraph env w) = Inl e \<longrightarrow>
            (\<exists>name depName.
               (name, depName) \<in> declared env (own locals) \<and> \<not> inLocals locals depName \<and>
               fst (requirePackage env name depName w) = Inl e)) \<and>
         ((\<forall>name depName.
             (name, depName) \<in> declared env (own locals) \<and> \<not> inLocals locals depName \<longrightarrow>
             (\<exists>depData. fst (requirePackage env name depName w) = Inr depData)) \<longrightarrow>
          (\<exists>g. fst (getPackageGraph env w) = Inr g))"
proof (intro conjI allI impI)
  fix g name depName
  assume h: "fst (getPackageGraph env w) = Inr g \<and> (name, depName) \<in> declared env (own locals) \<and>
    inLocals locals depName"
  then have "depName \<in> nodeNames g"
    using getPackageGraph_Inr(1) [OF assms, of g] by force
  then show "map_of (nodes g) depName = Some (getLocal locals depName)"
    using getPackageGraph_Inr(5) [OF assms, of g] h by (auto simp: payloads_def)
next
  fix g depName data
  assume h: "fst (getPackageGraph env w) = Inr g \<and> map_of (own locals) depName = Some data"
  then have k: "depName \<in> fst ` set (own locals)"
    by (force dest: map_of_SomeD)
  then have "depName \<in> nodeNames g"
    using getPackageGraph_Inr(1) [OF assms, of g] h by simp
  then show "map_of (nodes g) depName = Some (Data data)"
    using getPackageGraph_Inr(5) [OF assms, of g] h inLocals_own [OF k] getLocal_own [of locals]
    by (auto simp: payloads_def)
next
  fix g name depName
  assume h: "fst (getPackageGraph env w) = Inr g \<and> (name, depName) \<in> declared env (own locals) \<and>
    \<not> inLocals locals depName"
  then have "depName \<in> nodeNames g"
    using getPackageGraph_Inr(1) [OF assms, of g] by force
  then show "\<exists>name' depData.
      (name', depName) \<in> declared env (own locals) \<and>
      fst (requirePackage env name' depName w) = Inr depData \<and>
      map_of (nodes g) depName = Some (Data depData)"
    using getPackageGraph_Inr(5) [OF assms, of g] h by (auto simp: payloads_def)
next
  fix name depName
  show "fst (requirePackage env name depName w) =
      (case resolve env (files w) name of
         None \<Rightarrow> fst (require env (depName @ ''/package.json'') w)
       | Some parentModulePath \<Rightarrow>
           (case resolve_from env (files w) parentModulePath (depName @ ''/package.json'') of
              None \<Rightarrow> Inl (ModuleNotFound (depName @ ''/package.json''))
            | Some requirePath \<Rightarrow> fst (require env requirePath w)))"
    by (rule requirePackage_strategy)
next
  fix name depName
  assume "(name, depName) \<in> declared env (own locals) \<and> \<not> inLocals locals depName \<and>
    (\<forall>name'. (name', depName) \<in> declared env (own locals) \<longrightarrow>
       (\<exists>e. fst (requirePackage env name' depName w) = Inl e))"
  then show "\<exists>e. fst (getPackageGraph env w) = Inl e"
    using getPackageGraph_blocked [OF assms, of name depName] by blast
next
  fix e
  assume "fst (getPackageGraph env w) = Inl e"
  then show "\<exists>name depName.
      (name, depName) \<in> declared env (own locals) \<and> \<not> inLocals locals depName \<and>
      fst (requirePackage env name depName w) = Inl e"
    by (rule getPackageGraph_Inl [OF assms])
next
  assume "\<forall>name depName.
      (name, depName) \<in> declared env (own locals) \<and> \<not> inLocals locals depName \<longrightarrow>
      (\<exists>depData. fst (requirePackage env name depName w) = Inr depData)"
  then show "\<exists>g. fst (getPackageGraph env w) = Inr g"
    by (rule getPackageGraph_succeeds [OF assms])
qed

text \<open>
  In this workspace the package \<open>a\<close> does not resolve; the manifest of its dependency
  \<open>x\<close> is required directly and becomes the payload of the node \<open>x\<close>, while the node \<open>b\<close>
  carries the manifest of the local package \<open>b\<close>.
\<close>

theorem dependency_resolution_order_witness:
  "resolve nodeEnv (files fallbackWorld) ''a'' = None \<and>
   (\<exists>g. fst (getPackageGraph nodeEnv fallbackWorld) = Inr g \<and>
      map_of (nodes g) ''b'' = Some (Data manifestB) \<and>
      map_of (nodes g) ''x'' = Some (Data manifestX))"
proof -
  let ?locals = "\<lparr>own = [(''a'', manifestA2), (''b'', manifestB)], proto = None\<rparr>"
  note t = dependency_resolution_order [OF fallback_paths fallback_locals]
  note local = t [THEN conjunct2, THEN conjunct1, rule_format]
  note remote = t [THEN conjunct2, THEN conjunct2, THEN conjunct1, rule_format]
  note returns = t [THEN conjunct2, THEN conjunct2, THEN conjunct2, THEN conjunct2,
      THEN conjunct2, THEN conjunct2, THEN mp]
  have d: "declared nodeEnv (own ?locals) = {(''a'', ''b''), (''a'', ''x'')}"
    by (simp add: a2_declared)
  have b: "inLocals ?locals ''b''" and x: "\<not> inLocals ?locals ''x''"
    by (simp_all add: inLocals_def objectPrototypeNames_def)
  have "\<forall>name depName.
      (name, depName) \<in> declared nodeEnv (own ?locals) \<and> \<not> inLocals ?locals depName \<longrightarrow>
      (\<exists>depData. fst (requirePackage nodeEnv name depName fallbackWorld) = Inr depData)"
    unfolding d using b fallback_requirePackage by auto
  from returns [OF this] obtain g where g: "fst (getPackageGraph nodeEnv fallbackWorld) = Inr g"
    by (rule exE)
  have "fst (getPackageGraph nodeEnv fallbackWorld) = Inr g \<and>
      map_of (own ?locals) ''b'' = Some manifestB"
    using g by simp
  from local [OF this] have pb: "map_of (nodes g) ''b'' = Some (Data manifestB)" .
  have "fst (getPackageGraph nodeEnv fallbackWorld) = Inr g \<and>
      (''a'', ''x'') \<in> declared nodeEnv (own ?locals) \<and> \<not> inLocals ?locals ''x''"
    unfolding d using g x by simp
  from remote [OF this] obtain name' depData where
    n: "(name', ''x'') \<in> declared nodeEnv (own ?locals)" and
    r: "fst (requirePackage nodeEnv name' ''x'' fallbackWorld) = Inr depData" and
    m: "map_of (nodes g) ''x'' = Some (Data depData)"
    by auto
  from n have "name' = ''a''"
    unfolding d by simp
  with r fallback_requirePackage have "depData = manifestX"
    by simp
  with m have px: "map_of (nodes g) ''x'' = Some (Data manifestX)"
    by simp
  from g pb px have "\<exists>g. fst (getPackageGraph nodeEnv fallbackWorld) = Inr g \<and>
      map_of (nodes g) ''b'' = Some (Data manifestB) \<and>
      map_of (nodes g) ''x'' = Some (Data manifestX)"
    by (intro exI conjI)
  with fallback_resolve(1) show ?thesis
    by (rule conjI)
qed

text \<open>
  C4 as it is stated does not hold: a failure propagates although one of the two
  strategies would succeed. Here \<open>a\<close> resolves to its file under \<^verbatim>\<open>/r/node_modules\<close>, the
  manifest of its dependency \<open>x\<close> is not found from there, and \<^verbatim>\<open>getPackageGraph\<close> fails
  with \<^verbatim>\<open>MODULE_NOT_FOUND\<close>, while requiring the manifest of \<open>x\<close> directly by name loads it.
\<close>

theorem requirePackage_no_fallback_counterexample:
  "resolve nodeEnv (files hoistedWorld) ''a'' = Some ''/r/node_modules/a/index.js'' \<and>
   files hoistedWorld ''/r/node_modules/a/index.js'' \<noteq> None \<and>
   resolve_from nodeEnv (files hoistedWorld) ''/r/node_modules/a/index.js'' ''x/package.json'' = None \<and>
   fst (require nodeEnv ''x/package.json'' hoistedWorld) = Inr manifestX \<and>
   fst (getPackageGraph nodeEnv hoistedWorld) = Inl (ModuleNotFound ''x/package.json'')"
  by (simp add: hoisted_resolve hoisted_require hoisted_run) (simp add: hoistedWorld_def)

end
